theory Spec2Isabelle
  imports Main "HOL-Library.AList"
begin

section \<open>Types (server/src/types, in src/unnamed/part_000)\<close>

text \<open>
  A JavaScript \<^verbatim>\<open>Date\<close> is its millisecond timestamp; comparing two dates with
  \<^verbatim>\<open><\<close> or \<^verbatim>\<open>>\<close> compares the timestamps. A string is the list of its
  code units, each below 256 (the Latin-1 range): a \<open>char\<close> is one code unit.
  An optional field \<^verbatim>\<open>f?: T\<close> is a \<open>T option\<close>.
\<close>

type_synonym date = int

datatype OtpStatus = PENDING | VERIFIED | EXPIRED | INVALID

datatype OtpDeliveryMethod = EMAIL | SMS

datatype AuthMethod = AUTH_EMAIL | AUTH_PHONE | AUTH_WEBAUTHN

record OtpRecord =
  otp_id :: string
  otp_userId :: "string option"
  otp_recipient :: string
  otp_code :: string
  otp_method :: OtpDeliveryMethod
  otp_status :: OtpStatus
  otp_attempts :: nat
  otp_maxAttempts :: nat
  otp_createdAt :: date
  otp_expiresAt :: date
  otp_verifiedAt :: "date option"

text \<open>A thrown \<^verbatim>\<open>new Error(message)\<close> is the value \<open>Inl (Error message)\<close>.\<close>

datatype error = Error string

record User =
  user_id :: string
  user_name :: string
  user_email :: "string option"
  user_phone :: "string option"
  user_createdAt :: date
  user_updatedAt :: date
  user_did :: "string option"
  user_didDocument :: "string option"
  user_authMethods :: "AuthMethod list"
  user_isEmailVerified :: bool
  user_isPhoneVerified :: bool
  user_lastLogin :: "date option"

record WebAuthnCredential =
  cred_id :: string
  cred_userId :: string
  cred_credentialId :: string
  cred_publicKey :: string
  cred_counter :: nat
  cred_transports :: "string list"
  cred_deviceType :: "string option"
  cred_createdAt :: date
  cred_lastUsed :: "date option"

section \<open>The state of the server\<close>

text \<open>
  \<^verbatim>\<open>private otpRecords: Map<string, OtpRecord>\<close>. Only lookups by key, stores by key and
  one \<^verbatim>\<open>forEach\<close> that rewrites values in place are made on it, so the insertion order
  of the JavaScript map is never observed and the map is a partial function.
\<close>

type_synonym otpRecords = "string \<rightharpoonup> OtpRecord"

text \<open>\<^verbatim>\<open>interface RateLimitRecord\<close> of \<^verbatim>\<open>utils/otp.ts\<close>.\<close>

record RateLimitRecord =
  rl_count :: nat
  rl_firstAttempt :: date
  rl_lastAttempt :: date

type_synonym rateLimitCache = "string \<rightharpoonup> RateLimitRecord"

text \<open>
  \<^verbatim>\<open>interface WebAuthnSession\<close> of \<^verbatim>\<open>routes/webauthn.ts\<close>.
\<close>

record WebAuthnSession =
  ws_challenge :: string
  ws_userId :: "string option"
  ws_email :: "string option"
  ws_phone :: "string option"
  ws_expires :: date
  ws_userVerification :: "string option"

text \<open>
  The state of the server process: the seven maps of the \<^verbatim>\<open>UserModel\<close> singleton,
  \<^verbatim>\<open>rateLimitCache\<close> of \<^verbatim>\<open>utils/otp.ts\<close> and \<^verbatim>\<open>webAuthnSessions\<close> of
  \<^verbatim>\<open>routes/webauthn.ts\<close>. \<^verbatim>\<open>webauthnCredentials\<close> is searched by iterating over its
  values, so it keeps the insertion order of the JavaScript map: it is an association
  list, \<^verbatim>\<open>set\<close> is \<open>AList.update\<close> (in place for a key that is present, at the end
  for a new one), \<^verbatim>\<open>get\<close> is \<open>map_of\<close> and \<^verbatim>\<open>delete\<close> is \<open>AList.delete\<close>. A
  \<^verbatim>\<open>Set<string>\<close> is a list without repetition, in insertion order.
\<close>

record server =
  users :: "string \<rightharpoonup> User"
  emailIndex :: "string \<rightharpoonup> string"
  phoneIndex :: "string \<rightharpoonup> string"
  didIndex :: "string \<rightharpoonup> string"
  otpRecords :: otpRecords
  webauthnCredentials :: "(string \<times> WebAuthnCredential) list"
  webauthnCredentialsByUser :: "string \<rightharpoonup> string list"
  rateLimitCache :: rateLimitCache
  webAuthnSessions :: "string \<rightharpoonup> WebAuthnSession"

section \<open>The OTP records of the user model (class UserModel, in src/server/src/index.ts)\<close>

text \<open>
  \<^verbatim>\<open>createOtp(recipient, method, code, userId)\<close>; \<open>now\<close> is the reading of
  \<^verbatim>\<open>new Date()\<close> and \<open>uuid\<close> the value of \<^verbatim>\<open>uuidv4()\<close>.
\<close>

definition createOtp ::
  "date \<Rightarrow> string \<Rightarrow> string \<Rightarrow> OtpDeliveryMethod \<Rightarrow> string \<Rightarrow> string option \<Rightarrow> otpRecords
    \<Rightarrow> OtpRecord \<times> otpRecords" where
  "createOtp now uuid recipient method code userId records =
     (let expiresAt = now + 10 * 60 * 1000;
          otp = \<lparr> otp_id = uuid, otp_userId = userId, otp_recipient = recipient,
                  otp_code = code, otp_method = method, otp_status = PENDING,
                  otp_attempts = 0, otp_maxAttempts = 3, otp_createdAt = now,
                  otp_expiresAt = expiresAt, otp_verifiedAt = None \<rparr>
      in (otp, records(otp_id otp \<mapsto> otp)))"

definition getOtpById :: "string \<Rightarrow> otpRecords \<Rightarrow> OtpRecord option" where
  "getOtpById ident records = records ident"

text \<open>
  \<^verbatim>\<open>UserModel.verifyOtp(id, code)\<close>. Both \<^verbatim>\<open>new Date()\<close> of the body (the expiry
  check and the \<^verbatim>\<open>verifiedAt\<close> stamp) are the one reading \<open>now\<close>: the body is
  synchronous.
\<close>

definition UserModel_verifyOtp ::
  "date \<Rightarrow> string \<Rightarrow> string \<Rightarrow> otpRecords \<Rightarrow> OtpRecord option \<times> otpRecords" where
  "UserModel_verifyOtp now ident code records =
     (case records ident of
        None \<Rightarrow> (None, records)
      | Some otp \<Rightarrow>
          if now > otp_expiresAt otp then
            (let expiredOtp = otp\<lparr>otp_status := EXPIRED\<rparr>
             in (Some expiredOtp, records(ident \<mapsto> expiredOtp)))
          else if otp_attempts otp \<ge> otp_maxAttempts otp then (Some otp, records)
          else
            (let updatedOtp = otp\<lparr>otp_attempts := otp_attempts otp + 1\<rparr>;
                 updatedOtp =
                   (if code = otp_code otp
                    then updatedOtp\<lparr>otp_status := VERIFIED, otp_verifiedAt := Some now\<rparr>
                    else updatedOtp\<lparr>otp_status := INVALID\<rparr>)
             in (Some updatedOtp, records(ident \<mapsto> updatedOtp))))"

text \<open>
  \<^verbatim>\<open>invalidateOtps(recipient)\<close>: the \<^verbatim>\<open>forEach\<close> visits every entry once and
  replaces the value of a pending record of the recipient under its own key.
\<close>

definition invalidateOtps :: "string \<Rightarrow> otpRecords \<Rightarrow> otpRecords" where
  "invalidateOtps recipient records =
     (\<lambda>ident. case records ident of
        None \<Rightarrow> None
      | Some otp \<Rightarrow>
          if otp_recipient otp = recipient \<and> otp_status otp = PENDING
          then Some (otp\<lparr>otp_status := INVALID\<rparr>)
          else Some otp)"

section \<open>OTP utilities (src/server/src/utils/otp.ts)\<close>

definition MAX_OTP_ATTEMPTS :: nat where
  "MAX_OTP_ATTEMPTS = 3"

text \<open>
  \<^verbatim>\<open>isRateLimited(recipient)\<close> returns its answer and the cache, from which a window
  older than an hour has been deleted.
\<close>

definition isRateLimited :: "date \<Rightarrow> string \<Rightarrow> rateLimitCache \<Rightarrow> bool \<times> rateLimitCache" where
  "isRateLimited now recipient cache =
     (case cache recipient of
        None \<Rightarrow> (False, cache)
      | Some rec \<Rightarrow>
          (let hourAgo = now - 60 * 60 * 1000
           in if rl_firstAttempt rec < hourAgo then (False, cache(recipient := None))
              else (rl_count rec \<ge> 5, cache)))"

definition updateRateLimit :: "date \<Rightarrow> string \<Rightarrow> rateLimitCache \<Rightarrow> rateLimitCache" where
  "updateRateLimit now recipient cache =
     (case cache recipient of
        None \<Rightarrow>
          cache(recipient \<mapsto> \<lparr> rl_count = 1, rl_firstAttempt = now, rl_lastAttempt = now \<rparr>)
      | Some rec \<Rightarrow>
          cache(recipient \<mapsto> rec\<lparr>rl_count := rl_count rec + 1, rl_lastAttempt := now\<rparr>))"

text \<open>
  The regular expressions. Of the code units below 256, \<^verbatim>\<open>\s\<close> matches tab, line
  feed, vertical tab, form feed, carriage return, space and the no-break space U+00A0.
  \<open>emailChar\<close> is the class \<^verbatim>\<open>[^\s@]\<close>.
  \<^verbatim>\<open>/^[^\s@]+@[^\s@]+\.[^\s@]+$/\<close> matches when some \<open>i\<close> and \<open>j\<close> cut the string
  into three non-empty runs of the class around an \<^verbatim>\<open>@\<close> at \<open>i\<close> and a dot at \<open>j\<close>.
\<close>

definition isSpace :: "char \<Rightarrow> bool" where
  "isSpace c =
     (c \<in> set [CHR 0x09, CHR 0x0A, CHR 0x0B, CHR 0x0C, CHR 0x0D, CHR '' '', CHR 0xA0])"

definition emailChar :: "char \<Rightarrow> bool" where
  "emailChar c = (\<not> isSpace c \<and> c \<noteq> CHR ''@'')"

definition isValidEmail :: "string \<Rightarrow> bool" where
  "isValidEmail email =
     list_ex (\<lambda>i. list_ex (\<lambda>j.
        0 < i \<and> i + 1 < j \<and> j + 1 < length email \<and>
        email ! i = CHR ''@'' \<and> email ! j = CHR ''.'' \<and>
        list_all emailChar (take i email) \<and>
        list_all emailChar (take (j - (i + 1)) (drop (i + 1) email)) \<and>
        list_all emailChar (drop (j + 1) email))
       [0..<length email]) [0..<length email]"

text \<open>\<^verbatim>\<open>/^\+[1-9]\d{1,14}$/\<close>\<close>

definition isDigit :: "char \<Rightarrow> bool" where
  "isDigit c = (c \<in> set ''0123456789'')"

definition isValidPhone :: "string \<Rightarrow> bool" where
  "isValidPhone phone =
     (case phone of
        sign # d # rest \<Rightarrow>
          sign = CHR ''+'' \<and> d \<in> set ''123456789'' \<and>
          1 \<le> length rest \<and> length rest \<le> 14 \<and> list_all isDigit rest
      | _ \<Rightarrow> False)"

text \<open>
  The configuration read from the environment, and what the environment gives one call
  of \<^verbatim>\<open>createAndSendOtp\<close>: the clock readings of \<^verbatim>\<open>isRateLimited\<close>,
  \<^verbatim>\<open>createOtp\<close> and \<^verbatim>\<open>updateRateLimit\<close>, the generated code, the generated uuid
  and the answer of the external provider (\<^verbatim>\<open>sendOtpViaEmail\<close> or
  \<^verbatim>\<open>sendOtpViaSms\<close>, which catch their own exceptions and return a boolean).
\<close>

record OtpConfig =
  OTP_PROVIDER :: string
  NODE_ENV :: "string option"

record OtpEnv =
  nowCheck :: date
  generatedOtp :: string
  otpUuid :: string
  nowCreate :: date
  nowUpdate :: date
  providerSent :: bool

text \<open>
  The delivery part of \<^verbatim>\<open>createAndSendOtp\<close>: the final value of \<^verbatim>\<open>sent\<close>. The
  \<^verbatim>\<open>purpose\<close> of a request only selects the wording of the message that is sent.
\<close>

definition sendOtp :: "OtpConfig \<Rightarrow> OtpDeliveryMethod \<Rightarrow> bool \<Rightarrow> bool" where
  "sendOtp cfg method provider_sent =
     (let sent = False;
          sent = (if OTP_PROVIDER cfg = ''console'' \<or> NODE_ENV cfg = Some ''development''
                  then True else sent);
          sent = (if OTP_PROVIDER cfg = ''sendgrid'' \<and> method = EMAIL then provider_sent
                  else if OTP_PROVIDER cfg = ''twilio'' \<and> method = SMS then provider_sent
                  else sent);
          sent = (if \<not> sent \<and> OTP_PROVIDER cfg \<noteq> ''console'' then True else sent)
      in sent)"

definition createAndSendOtp ::
  "OtpConfig \<Rightarrow> OtpEnv \<Rightarrow> string \<Rightarrow> OtpDeliveryMethod \<Rightarrow> string \<Rightarrow> string option \<Rightarrow> server
    \<Rightarrow> (error + OtpRecord) \<times> server" where
  "createAndSendOtp cfg env recipient method purpose userId s =
     (if method = EMAIL \<and> \<not> isValidEmail recipient then
        (Inl (Error ''Invalid email format''), s)
      else if method = SMS \<and> \<not> isValidPhone recipient then
        (Inl (Error ''Invalid phone number format''), s)
      else
        (case isRateLimited (nowCheck env) recipient (rateLimitCache s) of
           (True, cache) \<Rightarrow>
             (Inl (Error ''Rate limit exceeded. Please try again later.''),
              s\<lparr>rateLimitCache := cache\<rparr>)
         | (False, cache) \<Rightarrow>
             (let records = invalidateOtps recipient (otpRecords s);
                  otp = generatedOtp env;
                  (otpRecord, records) =
                    createOtp (nowCreate env) (otpUuid env) recipient method otp userId records;
                  cache = updateRateLimit (nowUpdate env) recipient cache;
                  s = s\<lparr>otpRecords := records, rateLimitCache := cache\<rparr>
              in if \<not> sendOtp cfg method (providerSent env)
                 then (Inl (Error (''Failed to send OTP to '' @ recipient @ '' via '' @
                                   (case method of EMAIL \<Rightarrow> ''email'' | SMS \<Rightarrow> ''sms''))), s)
                 else (Inr otpRecord, s))))"

text \<open>
  \<^verbatim>\<open>verifyOtp(otpId, code): Promise<OtpRecord | null>\<close> of \<^verbatim>\<open>utils/otp.ts\<close>; \<open>now\<close>
  is the reading of its own \<^verbatim>\<open>new Date()\<close> and \<open>now'\<close> the later reading inside
  \<^verbatim>\<open>userModel.verifyOtp\<close>. \<^verbatim>\<open>null\<close> is \<open>None\<close>.
\<close>

definition verifyOtp ::
  "date \<Rightarrow> date \<Rightarrow> string \<Rightarrow> string \<Rightarrow> server \<Rightarrow> (error + OtpRecord option) \<times> server"
  where
  "verifyOtp now now' otpId code s =
     (case getOtpById otpId (otpRecords s) of
        None \<Rightarrow> (Inl (Error ''Invalid OTP ID''), s)
      | Some otpRecord \<Rightarrow>
          if now > otp_expiresAt otpRecord then
            (Inr (Some (otpRecord\<lparr>otp_status := EXPIRED\<rparr>)), s)
          else if otp_attempts otpRecord \<ge> MAX_OTP_ATTEMPTS then
            (Inl (Error ''Maximum verification attempts reached''), s)
          else
            (case UserModel_verifyOtp now' otpId code (otpRecords s) of
               (None, records) \<Rightarrow> (Inl (Error ''Failed to verify OTP''), s\<lparr>otpRecords := records\<rparr>)
             | (Some verifiedOtp, records) \<Rightarrow>
                 (Inr (Some verifiedOtp), s\<lparr>otpRecords := records\<rparr>)))"

section \<open>Users and credentials of the user model (class UserModel)\<close>

text \<open>
  JavaScript truthiness of an optional string: \<^verbatim>\<open>undefined\<close> and the empty string are
  falsy. Of the code units below 256, \<^verbatim>\<open>toLowerCase\<close> moves the letters A to Z and
  U+00C0 to U+00DE (the multiplication sign U+00D7 apart) up by 32.
\<close>

definition truthy :: "string option \<Rightarrow> bool" where
  "truthy x = (case x of None \<Rightarrow> False | Some v \<Rightarrow> v \<noteq> [])"

definition toLowerCase :: "string \<Rightarrow> string" where
  "toLowerCase str =
     map (\<lambda>c. let n = (of_char c :: nat)
              in if (65 \<le> n \<and> n \<le> 90) \<or> (192 \<le> n \<and> n \<le> 222 \<and> n \<noteq> 215)
                 then char_of (n + 32) else c) str"

record UserProfile =
  profile_name :: string
  profile_email :: "string option"
  profile_phone :: "string option"
  profile_createdAt :: date
  profile_updatedAt :: date

definition getUserById :: "string \<Rightarrow> server \<Rightarrow> User option" where
  "getUserById ident s = users s ident"

definition getUserByEmail :: "string \<Rightarrow> server \<Rightarrow> User option" where
  "getUserByEmail email s =
     (case emailIndex s (toLowerCase email) of
        None \<Rightarrow> None
      | Some userId \<Rightarrow> if userId = [] then None else users s userId)"

definition getUserByPhone :: "string \<Rightarrow> server \<Rightarrow> User option" where
  "getUserByPhone phone s =
     (case phoneIndex s phone of
        None \<Rightarrow> None
      | Some userId \<Rightarrow> if userId = [] then None else users s userId)"

text \<open>
  \<^verbatim>\<open>createUser(profile, authMethod)\<close>; \<open>now\<close> and \<open>uuid\<close> are its \<^verbatim>\<open>new Date()\<close> and
  \<^verbatim>\<open>uuidv4()\<close>. The spread \<^verbatim>\<open>...profile\<close> is overwritten by the later
  \<^verbatim>\<open>createdAt: now, updatedAt: now\<close>.
\<close>

definition createUser ::
  "date \<Rightarrow> string \<Rightarrow> UserProfile \<Rightarrow> AuthMethod \<Rightarrow> server \<Rightarrow> error + User \<times> server" where
  "createUser now uuid profile authMethod s =
     (if profile_name profile = [] then Inl (Error ''Name is required'')
      else if \<not> truthy (profile_email profile) \<and> \<not> truthy (profile_phone profile) then
        Inl (Error ''Either email or phone is required'')
      else if (case profile_email profile of
                 None \<Rightarrow> False
               | Some email \<Rightarrow> email \<noteq> [] \<and> emailIndex s (toLowerCase email) \<noteq> None) then
        Inl (Error ''User with this email already exists'')
      else if (case profile_phone profile of
                 None \<Rightarrow> False
               | Some phone \<Rightarrow> phone \<noteq> [] \<and> phoneIndex s phone \<noteq> None) then
        Inl (Error ''User with this phone already exists'')
      else
        (let user = \<lparr> user_id = uuid, user_name = profile_name profile,
                       user_email = profile_email profile, user_phone = profile_phone profile,
                       user_createdAt = now, user_updatedAt = now, user_did = None,
                       user_didDocument = None, user_authMethods = [authMethod],
                       user_isEmailVerified = False, user_isPhoneVerified = False,
                       user_lastLogin = None \<rparr>;
             s = s\<lparr>users := (users s)(uuid \<mapsto> user)\<rparr>;
             s = (case profile_email profile of
                    None \<Rightarrow> s
                  | Some email \<Rightarrow>
                      if email \<noteq> []
                      then s\<lparr>emailIndex := (emailIndex s)(toLowerCase email \<mapsto> uuid)\<rparr> else s);
             s = (case profile_phone profile of
                    None \<Rightarrow> s
                  | Some phone \<Rightarrow>
                      if phone \<noteq> [] then s\<lparr>phoneIndex := (phoneIndex s)(phone \<mapsto> uuid)\<rparr> else s)
         in Inr (user, s)))"

definition setUserDid ::
  "date \<Rightarrow> string \<Rightarrow> string \<Rightarrow> string option \<Rightarrow> server \<Rightarrow> error + User option \<times> server" where
  "setUserDid now userId did didDocument s =
     (case users s userId of
        None \<Rightarrow> Inr (None, s)
      | Some user \<Rightarrow>
          if truthy (didIndex s did) \<and> didIndex s did \<noteq> Some userId then
            Inl (Error ''DID already assigned to another user'')
          else
            (let updatedUser = user\<lparr>user_did := Some did, user_didDocument := didDocument,
                                    user_updatedAt := now\<rparr>
             in Inr (Some updatedUser,
                     s\<lparr>users := (users s)(userId \<mapsto> updatedUser),
                       didIndex := (didIndex s)(did \<mapsto> userId)\<rparr>)))"

definition verifyEmail :: "date \<Rightarrow> string \<Rightarrow> server \<Rightarrow> User option \<times> server" where
  "verifyEmail now userId s =
     (case users s userId of
        None \<Rightarrow> (None, s)
      | Some user \<Rightarrow>
          (let updatedUser = user\<lparr>user_isEmailVerified := True, user_updatedAt := now\<rparr>
           in (Some updatedUser, s\<lparr>users := (users s)(userId \<mapsto> updatedUser)\<rparr>)))"

definition verifyPhone :: "date \<Rightarrow> string \<Rightarrow> server \<Rightarrow> User option \<times> server" where
  "verifyPhone now userId s =
     (case users s userId of
        None \<Rightarrow> (None, s)
      | Some user \<Rightarrow>
          (let updatedUser = user\<lparr>user_isPhoneVerified := True, user_updatedAt := now\<rparr>
           in (Some updatedUser, s\<lparr>users := (users s)(userId \<mapsto> updatedUser)\<rparr>)))"

definition updateLastLogin :: "date \<Rightarrow> string \<Rightarrow> server \<Rightarrow> User option \<times> server" where
  "updateLastLogin now userId s =
     (case users s userId of
        None \<Rightarrow> (None, s)
      | Some user \<Rightarrow>
          (let updatedUser = user\<lparr>user_lastLogin := Some now, user_updatedAt := now\<rparr>
           in (Some updatedUser, s\<lparr>users := (users s)(userId \<mapsto> updatedUser)\<rparr>)))"

definition addAuthMethod :: "date \<Rightarrow> string \<Rightarrow> AuthMethod \<Rightarrow> server \<Rightarrow> User option \<times> server" where
  "addAuthMethod now userId authMethod s =
     (case users s userId of
        None \<Rightarrow> (None, s)
      | Some user \<Rightarrow>
          if authMethod \<in> set (user_authMethods user) then (Some user, s)
          else
            (let updatedUser = user\<lparr>user_authMethods := user_authMethods user @ [authMethod],
                                    user_updatedAt := now\<rparr>
             in (Some updatedUser, s\<lparr>users := (users s)(userId \<mapsto> updatedUser)\<rparr>)))"

text \<open>
  \<^verbatim>\<open>storeWebAuthnCredential(credential)\<close>: the fields of its argument are the parameters
  from \<open>userId\<close> on.
\<close>

definition storeWebAuthnCredential ::
  "date \<Rightarrow> string \<Rightarrow> string \<Rightarrow> string \<Rightarrow> string \<Rightarrow> nat \<Rightarrow> string list \<Rightarrow> string option \<Rightarrow> server
    \<Rightarrow> WebAuthnCredential \<times> server" where
  "storeWebAuthnCredential now uuid userId credentialId publicKey counter transports deviceType s =
     (let webauthnCredential =
            \<lparr> cred_id = uuid, cred_userId = userId, cred_credentialId = credentialId,
              cred_publicKey = publicKey, cred_counter = counter,
              cred_transports = transports, cred_deviceType = deviceType,
              cred_createdAt = now, cred_lastUsed = None \<rparr>;
          s = s\<lparr>webauthnCredentials := AList.update uuid webauthnCredential (webauthnCredentials s)\<rparr>;
          userCredentials =
            (case webauthnCredentialsByUser s userId of None \<Rightarrow> [] | Some ids \<Rightarrow> ids);
          userCredentials =
            (if uuid \<in> set userCredentials then userCredentials else userCredentials @ [uuid]);
          s = s\<lparr>webauthnCredentialsByUser :=
                 (webauthnCredentialsByUser s)(userId \<mapsto> userCredentials)\<rparr>;
          s = snd (addAuthMethod now userId AUTH_WEBAUTHN s)
      in (webauthnCredential, s))"

text \<open>
  \<^verbatim>\<open>getWebAuthnCredentialByCredentialId\<close>: the first value, in insertion order, with
  the credential identifier.
\<close>

definition getWebAuthnCredentialByCredentialId ::
  "string \<Rightarrow> server \<Rightarrow> WebAuthnCredential option" where
  "getWebAuthnCredentialByCredentialId credentialId s =
     find (\<lambda>credential. cred_credentialId credential = credentialId)
       (map snd (webauthnCredentials s))"

definition updateWebAuthnCredentialCounter ::
  "date \<Rightarrow> string \<Rightarrow> nat \<Rightarrow> server \<Rightarrow> WebAuthnCredential option \<times> server" where
  "updateWebAuthnCredentialCounter now ident counter s =
     (case map_of (webauthnCredentials s) ident of
        None \<Rightarrow> (None, s)
      | Some credential \<Rightarrow>
          (let updatedCredential = credential\<lparr>cred_counter := counter, cred_lastUsed := Some now\<rparr>
           in (Some updatedCredential,
               s\<lparr>webauthnCredentials :=
                   AList.update ident updatedCredential (webauthnCredentials s)\<rparr>)))"

section \<open>Tokens (server/src/utils/auth, in src/unnamed/part_001)\<close>

text \<open>
  \<^verbatim>\<open>generateToken(user, authMethod)\<close>; \<open>jwtSecret\<close> is \<^verbatim>\<open>process.env.JWT_SECRET\<close> and
  \<open>jwtSign\<close> the signature \<^verbatim>\<open>jwt.sign\<close> computes for the payload of the user.
\<close>

definition generateToken ::
  "string option \<Rightarrow> (User \<Rightarrow> AuthMethod \<Rightarrow> string) \<Rightarrow> User \<Rightarrow> AuthMethod \<Rightarrow> error + string" where
  "generateToken jwtSecret jwtSign user authMethod =
     (if \<not> truthy jwtSecret then Inl (Error ''JWT secret not configured'')
      else Inr (jwtSign user authMethod))"

section \<open>Responses\<close>

text \<open>
  What a handler sends: the status code and the fields of the JSON body the handlers of
  \<^verbatim>\<open>routes/auth.ts\<close> and \<^verbatim>\<open>routes/webauthn.ts\<close> write (\<^verbatim>\<open>details\<close> of a validation
  error left out). A field that a body does not have is \<open>None\<close>, or \<open>False\<close> for
  \<^verbatim>\<open>success\<close> and \<^verbatim>\<open>fallbackToOtp\<close>.
\<close>

record UserSummary =
  sum_id :: string
  sum_name :: string
  sum_email :: "string option"
  sum_phone :: "string option"
  sum_did :: "string option"

record Response =
  res_status :: nat
  res_error :: "string option"
  res_message :: string
  res_success :: bool
  res_attemptsLeft :: "int option"
  res_fallbackToOtp :: bool
  res_token :: "string option"
  res_user :: "UserSummary option"
  res_isNewUser :: "bool option"
  res_supportsWebAuthn :: "bool option"
  res_credentialId :: "string option"

definition errorResponse :: "nat \<Rightarrow> string \<Rightarrow> string \<Rightarrow> Response" where
  "errorResponse code err message =
     \<lparr> res_status = code, res_error = Some err, res_message = message, res_success = False,
       res_attemptsLeft = None, res_fallbackToOtp = False, res_token = None,
       res_user = None, res_isNewUser = None, res_supportsWebAuthn = None,
       res_credentialId = None \<rparr>"

definition successResponse :: "string \<Rightarrow> Response" where
  "successResponse message =
     \<lparr> res_status = 200, res_error = None, res_message = message, res_success = True,
       res_attemptsLeft = None, res_fallbackToOtp = False, res_token = None,
       res_user = None, res_isNewUser = None, res_supportsWebAuthn = None,
       res_credentialId = None \<rparr>"

definition userSummary :: "User \<Rightarrow> UserSummary" where
  "userSummary user =
     \<lparr> sum_id = user_id user, sum_name = user_name user, sum_email = user_email user,
       sum_phone = user_phone user, sum_did = user_did user \<rparr>"

text \<open>
  Inside a handler a step throws (the \<^verbatim>\<open>catch\<close> of the handler answers), returns a
  response early, or goes on with a value.
\<close>

datatype 'a outcome = Throw error | Return Response | Continue 'a

section \<open>POST /api/auth/verify-otp (src/server/src/routes/auth.ts)\<close>

text \<open>
  The request body and the \<^verbatim>\<open>user-agent\<close> header. \<^verbatim>\<open>registerUser\<close> is declared a
  boolean, but the route accepts what \<^verbatim>\<open>isBoolean()\<close> accepts and the handler tests its
  truthiness, so the field is the JSON boolean, number or string of the body.
  What the environment gives one
  request: the clock readings of \<^verbatim>\<open>otpUtils.verifyOtp\<close> and of
  \<^verbatim>\<open>userModel.verifyOtp\<close>, one reading for the writes that follow, the uuid of
  \<^verbatim>\<open>createUser\<close>, the answer of \<^verbatim>\<open>didUtils.generateDID\<close> (the identifier and its
  document, \<open>None\<close> when it throws), the signing secret and the signature.
\<close>

datatype jsvalue = JsBoolean bool | JsNumber int | JsString string

record VerifyOtpRequest =
  req_otpId :: string
  req_code :: string
  req_registerUser :: "jsvalue option"
  req_name :: "string option"
  req_userAgent :: "string option"

record AuthEnv =
  ae_nowVerify :: date
  ae_nowModel :: date
  ae_now :: date
  ae_uuid :: string
  ae_generateDID :: "(string \<times> string) option"
  ae_jwtSecret :: "string option"
  ae_jwtSign :: "User \<Rightarrow> AuthMethod \<Rightarrow> string"

text \<open>\<^verbatim>\<open>String.prototype.includes\<close>\<close>

fun str_includes :: "string \<Rightarrow> string \<Rightarrow> bool" where
  "str_includes [] needle = (needle = [])"
| "str_includes (c # cs) needle =
     (take (length needle) (c # cs) = needle \<or> str_includes cs needle)"

text \<open>
  \<^verbatim>\<open>isBoolean()\<close> of the validator: the value, written as a string, is one of
  \<^verbatim>\<open>true\<close>, \<^verbatim>\<open>false\<close>, \<^verbatim>\<open>1\<close> and \<^verbatim>\<open>0\<close>. JavaScript truthiness of a value:
  \<^verbatim>\<open>false\<close>, \<^verbatim>\<open>0\<close> and the empty string are falsy, and so is a field that is absent.
\<close>

definition isBoolean :: "jsvalue \<Rightarrow> bool" where
  "isBoolean v =
     (case v of
        JsBoolean b \<Rightarrow> True
      | JsNumber n \<Rightarrow> n = 0 \<or> n = 1
      | JsString str \<Rightarrow> str \<in> set [''true'', ''false'', ''1'', ''0''])"

definition jsTruthy :: "jsvalue option \<Rightarrow> bool" where
  "jsTruthy x =
     (case x of
        None \<Rightarrow> False
      | Some (JsBoolean b) \<Rightarrow> b
      | Some (JsNumber n) \<Rightarrow> n \<noteq> 0
      | Some (JsString str) \<Rightarrow> str \<noteq> [])"

text \<open>
  The validation chain of the route: \<^verbatim>\<open>otpId\<close> and \<^verbatim>\<open>code\<close> not empty,
  \<^verbatim>\<open>registerUser\<close>, when given, a boolean for \<^verbatim>\<open>isBoolean()\<close>, and \<^verbatim>\<open>name\<close>, when
  given, of 2 to 100 characters.
\<close>

definition verifyOtpRequestValid :: "VerifyOtpRequest \<Rightarrow> bool" where
  "verifyOtpRequestValid req =
     (req_otpId req \<noteq> [] \<and> req_code req \<noteq> [] \<and>
      (case req_registerUser req of None \<Rightarrow> True | Some v \<Rightarrow> isBoolean v) \<and>
      (case req_name req of None \<Rightarrow> True | Some name \<Rightarrow> 2 \<le> length name \<and> length name \<le> 100))"

definition noAccountMessage :: "OtpDeliveryMethod \<Rightarrow> string" where
  "noAccountMessage m =
     ''No account found with this '' @ (if m = EMAIL then ''email'' else ''phone number'') @
     ''. Please register first.''"

text \<open>
  Lines 198 to 267 of the handler: the user of a verified record, looked up or
  created. The result carries \<^verbatim>\<open>user\<close> and \<^verbatim>\<open>isNewUser\<close>.
\<close>

definition resolveUser ::
  "AuthEnv \<Rightarrow> VerifyOtpRequest \<Rightarrow> OtpRecord \<Rightarrow> AuthMethod \<Rightarrow> server
    \<Rightarrow> (User \<times> bool) outcome \<times> server" where
  "resolveUser env req otpRecord authMethod s =
     (case (if truthy (otp_userId otpRecord) then otp_userId otpRecord else None) of
        Some userId \<Rightarrow>
          (case getUserById userId s of
             None \<Rightarrow> (Return (errorResponse 404 ''Not Found'' ''User not found''), s)
           | Some user \<Rightarrow> (Continue (user, False), s))
      | None \<Rightarrow>
          (case (if otp_method otpRecord = EMAIL then getUserByEmail (otp_recipient otpRecord) s
                 else getUserByPhone (otp_recipient otpRecord) s) of
             Some user \<Rightarrow> (Continue (user, False), s)
           | None \<Rightarrow>
               if jsTruthy (req_registerUser req) then
                 (case (if truthy (req_name req) then req_name req else None) of
                    None \<Rightarrow>
                      (Return (errorResponse 400 ''Validation Error''
                                 ''Name is required for registration''), s)
                  | Some name \<Rightarrow>
                      (let userProfile =
                             \<lparr> profile_name = name,
                               profile_email = (if otp_method otpRecord = EMAIL
                                                then Some (otp_recipient otpRecord) else None),
                               profile_phone = (if otp_method otpRecord = EMAIL
                                                then None else Some (otp_recipient otpRecord)),
                               profile_createdAt = ae_now env, profile_updatedAt = ae_now env \<rparr>
                       in case createUser (ae_now env) (ae_uuid env) userProfile authMethod s of
                            Inl e \<Rightarrow> (Throw e, s)
                          | Inr (user, s) \<Rightarrow>
                              (let s = (if otp_method otpRecord = EMAIL
                                        then snd (verifyEmail (ae_now env) (user_id user) s)
                                        else snd (verifyPhone (ae_now env) (user_id user) s));
                                   s = (case ae_generateDID env of
                                          None \<Rightarrow> s
                                        | Some (did, didDocument) \<Rightarrow>
                                            (case setUserDid (ae_now env) (user_id user) did
                                                    (Some didDocument) s of
                                               Inl e \<Rightarrow> s
                                             | Inr (u, s') \<Rightarrow> s'))
                               in (Continue (user, True), s))))
               else
                 (Return (errorResponse 404 ''Not Found''
                            (noAccountMessage (otp_method otpRecord))), s)))"

definition supportsWebAuthn :: "string option \<Rightarrow> bool option" where
  "supportsWebAuthn userAgent =
     (case userAgent of
        None \<Rightarrow> None
      | Some ua \<Rightarrow>
          Some (str_includes ua ''Chrome'' \<or> str_includes ua ''Firefox'' \<or> str_includes ua ''Safari''))"

definition verifyOtpFailed :: Response where
  "verifyOtpFailed =
     errorResponse 500 ''Internal Server Error'' ''Failed to verify OTP. Please try again later.''"

definition postVerifyOtp :: "AuthEnv \<Rightarrow> VerifyOtpRequest \<Rightarrow> server \<Rightarrow> Response \<times> server" where
  "postVerifyOtp env req s =
     (if \<not> verifyOtpRequestValid req then
        (errorResponse 400 ''Validation Error'' ''Invalid request data'', s)
      else
        (case verifyOtp (ae_nowVerify env) (ae_nowModel env) (req_otpId req) (req_code req) s of
           (Inl e, s) \<Rightarrow> (verifyOtpFailed, s)
         | (Inr None, s) \<Rightarrow> (errorResponse 400 ''Verification Error'' ''Invalid OTP ID'', s)
         | (Inr (Some otpRecord), s) \<Rightarrow>
             if otp_status otpRecord = EXPIRED then
               (errorResponse 400 ''Verification Error''
                  ''OTP has expired. Please request a new one.'', s)
             else if otp_status otpRecord \<noteq> VERIFIED then
               ((errorResponse 400 ''Verification Error'' ''Invalid OTP code'')
                  \<lparr>res_attemptsLeft :=
                     Some (int (otp_maxAttempts otpRecord) - int (otp_attempts otpRecord))\<rparr>, s)
             else
               (let authMethod = (if otp_method otpRecord = EMAIL then AUTH_EMAIL else AUTH_PHONE)
                in case resolveUser env req otpRecord authMethod s of
                     (Throw e, s) \<Rightarrow> (verifyOtpFailed, s)
                   | (Return response, s) \<Rightarrow> (response, s)
                   | (Continue (user, isNewUser), s) \<Rightarrow>
                       (let s = snd (updateLastLogin (ae_now env) (user_id user) s)
                        in case generateToken (ae_jwtSecret env) (ae_jwtSign env) user authMethod of
                             Inl e \<Rightarrow> (verifyOtpFailed, s)
                           | Inr token \<Rightarrow>
                               ((successResponse ''Authentication successful'')
                                  \<lparr>res_token := Some token,
                                    res_user := Some (userSummary user),
                                    res_isNewUser := Some isNewUser,
                                    res_supportsWebAuthn := supportsWebAuthn (req_userAgent req)\<rparr>,
                                s)))))"

section \<open>WebAuthn ceremonies (src/server/src/routes/webauthn.ts)\<close>

text \<open>
  The \<^verbatim>\<open>credential\<close> of a request body: its identifier (as \<^verbatim>\<open>isoBase64URL.fromBuffer\<close>
  gives it), \<^verbatim>\<open>response.transports\<close> and the signed data, which only the verifier
  reads. A request without a \<^verbatim>\<open>credential\<close> has \<open>None\<close>.
\<close>

record RequestCredential =
  rc_id :: string
  rc_transports :: "string list option"
  rc_signedData :: string

record WebAuthnRequest =
  wr_sessionId :: string
  wr_credential :: "RequestCredential option"

text \<open>
  The verifier of \<^verbatim>\<open>@simplewebauthn/server\<close> is outside the repository: it is a
  parameter. A call throws an error with a message, or returns \<^verbatim>\<open>verified\<close> and the
  optional information. The identifier and the public key of the registration
  information are in the base64url form \<^verbatim>\<open>isoBase64URL.fromBuffer\<close> gives them.
\<close>

datatype 'info Verification = VerifyThrows string | Verified bool "'info option"

record RegistrationInfo =
  ri_credentialID :: string
  ri_credentialPublicKey :: string
  ri_counter :: nat

record AuthenticationInfo =
  ai_newCounter :: nat

record VerifyRegistrationOpts =
  vr_response :: RequestCredential
  vr_expectedChallenge :: string
  vr_expectedOrigin :: string
  vr_expectedRPID :: string
  vr_requireUserVerification :: bool

record VerifyAuthenticationOpts =
  va_response :: RequestCredential
  va_expectedChallenge :: string
  va_expectedOrigin :: string
  va_expectedRPID :: string
  va_requireUserVerification :: bool
  va_credentialID :: string
  va_credentialPublicKey :: string
  va_counter :: nat

text \<open>
  What the environment gives one request: one clock reading for its writes, the uuid of
  \<^verbatim>\<open>storeWebAuthnCredential\<close>, the relying party configuration, the two verifiers,
  the signing secret and the signature.
\<close>

record WebAuthnEnv =
  we_now :: date
  we_uuid :: string
  we_RP_ID :: string
  we_RP_ORIGIN :: string
  we_verifyRegistrationResponse :: "VerifyRegistrationOpts \<Rightarrow> RegistrationInfo Verification"
  we_verifyAuthenticationResponse :: "VerifyAuthenticationOpts \<Rightarrow> AuthenticationInfo Verification"
  we_jwtSecret :: "string option"
  we_jwtSign :: "User \<Rightarrow> AuthMethod \<Rightarrow> string"

definition orElse :: "string \<Rightarrow> string \<Rightarrow> string" where
  "orElse message fallback = (if message = [] then fallback else message)"

definition fallbackResponse :: "nat \<Rightarrow> string \<Rightarrow> string \<Rightarrow> Response" where
  "fallbackResponse code err message = (errorResponse code err message)\<lparr>res_fallbackToOtp := True\<rparr>"

text \<open>
  The \<^verbatim>\<open>verifyOptions\<close> the two handlers build from the session, the credential of
  the request and, for an authentication, the stored credential.
\<close>

definition registrationVerifyOptions ::
  "WebAuthnEnv \<Rightarrow> WebAuthnSession \<Rightarrow> RequestCredential \<Rightarrow> VerifyRegistrationOpts" where
  "registrationVerifyOptions env session credential =
     \<lparr> vr_response = credential,
       vr_expectedChallenge = ws_challenge session,
       vr_expectedOrigin = we_RP_ORIGIN env,
       vr_expectedRPID = we_RP_ID env,
       vr_requireUserVerification = (ws_userVerification session = Some ''required'') \<rparr>"

definition authenticationVerifyOptions ::
  "WebAuthnEnv \<Rightarrow> WebAuthnSession \<Rightarrow> RequestCredential \<Rightarrow> WebAuthnCredential
    \<Rightarrow> VerifyAuthenticationOpts" where
  "authenticationVerifyOptions env session credential storedCredential =
     \<lparr> va_response = credential,
       va_expectedChallenge = ws_challenge session,
       va_expectedOrigin = we_RP_ORIGIN env,
       va_expectedRPID = we_RP_ID env,
       va_requireUserVerification = (ws_userVerification session = Some ''required''),
       va_credentialID = cred_credentialId storedCredential,
       va_credentialPublicKey = cred_publicKey storedCredential,
       va_counter = cred_counter storedCredential \<rparr>"

text \<open>\<^verbatim>\<open>POST /api/webauthn/verify-registration\<close>\<close>

definition postVerifyRegistration :: "WebAuthnEnv \<Rightarrow> WebAuthnRequest \<Rightarrow> server \<Rightarrow> Response \<times> server"
  where
  "postVerifyRegistration env req s =
     (case (if wr_sessionId req = [] then None else wr_credential req) of
        None \<Rightarrow> (errorResponse 400 ''Validation Error'' ''Invalid request data'', s)
      | Some credential \<Rightarrow>
          (case webAuthnSessions s (wr_sessionId req) of
             None \<Rightarrow>
               (errorResponse 400 ''Invalid Session''
                  ''Registration session not found or expired'', s)
           | Some session \<Rightarrow>
               (case (case ws_userId session of
                        None \<Rightarrow> None
                      | Some userId \<Rightarrow> map_option (Pair userId) (getUserById userId s)) of
                  None \<Rightarrow> (errorResponse 404 ''Not Found'' ''User not found'', s)
                | Some (userId, user) \<Rightarrow>
                    (let verifyOptions = registrationVerifyOptions env session credential
                     in case we_verifyRegistrationResponse env verifyOptions of
                          VerifyThrows message \<Rightarrow>
                            (errorResponse 400 ''Verification Error''
                               (orElse message ''Failed to verify registration''), s)
                        | Verified verified registrationInfo \<Rightarrow>
                            (case (if verified then registrationInfo else None) of
                               None \<Rightarrow>
                                 (errorResponse 400 ''Verification Error''
                                    ''Registration verification failed'', s)
                             | Some info \<Rightarrow>
                                 (let (credentialRecord, s) =
                                        storeWebAuthnCredential (we_now env) (we_uuid env) userId
                                          (ri_credentialID info) (ri_credentialPublicKey info)
                                          (ri_counter info)
                                          (case rc_transports credential of
                                             None \<Rightarrow> [] | Some ts \<Rightarrow> ts)
                                          (Some ''platform'') s;
                                      s = s\<lparr>webAuthnSessions :=
                                             (webAuthnSessions s)(wr_sessionId req := None)\<rparr>;
                                      s = snd (addAuthMethod (we_now env) userId AUTH_WEBAUTHN s)
                                  in ((successResponse
                                         ''WebAuthn credential registered successfully'')
                                        \<lparr>res_credentialId :=
                                           Some (cred_credentialId credentialRecord)\<rparr>, s)))))))"

text \<open>\<^verbatim>\<open>POST /api/webauthn/verify-authentication\<close>\<close>

definition postVerifyAuthentication ::
  "WebAuthnEnv \<Rightarrow> WebAuthnRequest \<Rightarrow> server \<Rightarrow> Response \<times> server" where
  "postVerifyAuthentication env req s =
     (case (if wr_sessionId req = [] then None else wr_credential req) of
        None \<Rightarrow> (errorResponse 400 ''Validation Error'' ''Invalid request data'', s)
      | Some credential \<Rightarrow>
          (case webAuthnSessions s (wr_sessionId req) of
             None \<Rightarrow>
               (errorResponse 400 ''Invalid Session''
                  ''Authentication session not found or expired'', s)
           | Some session \<Rightarrow>
               (case (case ws_userId session of
                        None \<Rightarrow> None
                      | Some userId \<Rightarrow> getUserById userId s) of
                  None \<Rightarrow> (errorResponse 404 ''Not Found'' ''User not found'', s)
                | Some user \<Rightarrow>
                    (case getWebAuthnCredentialByCredentialId (rc_id credential) s of
                       None \<Rightarrow>
                         (fallbackResponse 400 ''Authentication Error'' ''Unknown credential'', s)
                     | Some storedCredential \<Rightarrow>
                         if cred_userId storedCredential \<noteq> user_id user then
                           (errorResponse 403 ''Forbidden''
                              ''Credential does not belong to this user'', s)
                         else
                           (let verifyOptions =
                                  authenticationVerifyOptions env session credential
                                    storedCredential
                            in case we_verifyAuthenticationResponse env verifyOptions of
                                 VerifyThrows message \<Rightarrow>
                                   (fallbackResponse 400 ''Verification Error''
                                      (orElse message ''Failed to verify authentication''), s)
                               | Verified verified authenticationInfo \<Rightarrow>
                                   (case (if verified then authenticationInfo else None) of
                                      None \<Rightarrow>
                                        (fallbackResponse 400 ''Verification Error''
                                           ''Authentication verification failed'', s)
                                    | Some info \<Rightarrow>
                                        (let s = snd (updateWebAuthnCredentialCounter (we_now env)
                                                        (cred_id storedCredential)
                                                        (ai_newCounter info) s);
                                             s = snd (updateLastLogin (we_now env) (user_id user) s)
                                         in case generateToken (we_jwtSecret env) (we_jwtSign env)
                                                   user AUTH_WEBAUTHN of
                                              Inl e \<Rightarrow>
                                                (errorResponse 500 ''Internal Server Error''
                                                   ''Failed to verify authentication'', s)
                                            | Inr token \<Rightarrow>
                                                (let s = s\<lparr>webAuthnSessions :=
                                                            (webAuthnSessions s)
                                                              (wr_sessionId req := None)\<rparr>
                                                 in ((successResponse ''Authentication successful'')
                                                       \<lparr>res_token := Some token,
                                                         res_user := Some (userSummary user)\<rparr>,
                                                     s)))))))))"

section \<open>Scenarios\<close>

text \<open>
  The state of a freshly started process: every map is empty.
\<close>

definition initialServer :: server where
  "initialServer = \<lparr> users = Map.empty, emailIndex = Map.empty, phoneIndex = Map.empty,
     didIndex = Map.empty, otpRecords = Map.empty, webauthnCredentials = [],
     webauthnCredentialsByUser = Map.empty, rateLimitCache = Map.empty,
     webAuthnSessions = Map.empty \<rparr>"

text \<open>
  A recipient that passes the format check of \<^verbatim>\<open>createAndSendOtp\<close> for its delivery
  method, and the error thrown for a rate limited recipient.
\<close>

definition validRecipient :: "OtpDeliveryMethod \<Rightarrow> string \<Rightarrow> bool" where
  "validRecipient method recipient =
     (case method of EMAIL \<Rightarrow> isValidEmail recipient | SMS \<Rightarrow> isValidPhone recipient)"

definition rateLimitError :: error where
  "rateLimitError = Error ''Rate limit exceeded. Please try again later.''"

text \<open>
  A run of issuance requests for one recipient, one after the other, each with its own
  environment; the results are listed in the order of the requests.
\<close>

fun issueAll ::
  "OtpConfig \<Rightarrow> string \<Rightarrow> OtpDeliveryMethod \<Rightarrow> string \<Rightarrow> string option \<Rightarrow> OtpEnv list \<Rightarrow> server
    \<Rightarrow> (error + OtpRecord) list \<times> server" where
  "issueAll cfg recipient method purpose userId [] s = ([], s)"
| "issueAll cfg recipient method purpose userId (env # envs) s =
     (case createAndSendOtp cfg env recipient method purpose userId s of
        (r, s') \<Rightarrow>
          (case issueAll cfg recipient method purpose userId envs s' of
             (rs, s'') \<Rightarrow> (r # rs, s'')))"

text \<open>
  Concrete inputs: the default configuration (\<^verbatim>\<open>OTP_PROVIDER\<close> unset, so
  \<^verbatim>\<open>'console'\<close>), an environment whose three clock readings are one instant, and a
  server on which two codes have been issued to the same address, one second apart.
\<close>

definition consoleConfig :: OtpConfig where
  "consoleConfig = \<lparr> OTP_PROVIDER = ''console'', NODE_ENV = None \<rparr>"

definition envAt :: "date \<Rightarrow> string \<Rightarrow> string \<Rightarrow> OtpEnv" where
  "envAt t ident code =
     \<lparr> nowCheck = t, generatedOtp = code, otpUuid = ident, nowCreate = t, nowUpdate = t,
       providerSent = True \<rparr>"

definition issuedOnce :: server where
  "issuedOnce =
     snd (createAndSendOtp consoleConfig (envAt 0 ''otp-1'' ''111111'')
            ''a@b.co'' EMAIL ''login'' None initialServer)"

definition issuedTwice :: server where
  "issuedTwice =
     snd (createAndSendOtp consoleConfig (envAt 1000 ''otp-2'' ''222222'')
            ''a@b.co'' EMAIL ''login'' None issuedOnce)"

text \<open>
  A pending record as \<^verbatim>\<open>createOtp\<close> makes it, a store of two pending records, a
  server whose only record has used up its three attempts, and a server whose window
  for the address stands at the ceiling.
\<close>

definition pendingOtp :: OtpRecord where
  "pendingOtp =
     \<lparr> otp_id = ''otp-1'', otp_userId = None, otp_recipient = ''a@b.co'',
       otp_code = ''111111'', otp_method = EMAIL, otp_status = PENDING,
       otp_attempts = 0, otp_maxAttempts = 3, otp_createdAt = 0,
       otp_expiresAt = 600000, otp_verifiedAt = None \<rparr>"

definition twoRecords :: otpRecords where
  "twoRecords =
     [''otp-1'' \<mapsto> pendingOtp,
      ''otp-2'' \<mapsto> pendingOtp\<lparr>otp_id := ''otp-2'', otp_code := ''222222''\<rparr>]"

definition exhaustedServer :: server where
  "exhaustedServer =
     initialServer\<lparr>otpRecords :=
       [''otp-1'' \<mapsto> pendingOtp\<lparr>otp_status := INVALID, otp_attempts := 3\<rparr>]\<rparr>"

definition limitedServer :: server where
  "limitedServer = issuedTwice\<lparr>rateLimitCache :=
      (rateLimitCache issuedTwice)(''a@b.co'' \<mapsto>
         \<lparr> rl_count = 5, rl_firstAttempt = 0, rl_lastAttempt = 4000 \<rparr>)\<rparr>"

text \<open>
  A server with one user, one registered credential with counter 0 and one open WebAuthn
  session; an environment whose verifiers accept a response exactly when its signed data
  names the expected challenge, the authenticator reporting the signature counter
  \<open>reported\<close>.
\<close>

definition ada :: User where
  "ada = \<lparr> user_id = ''user-1'', user_name = ''Ada'', user_email = Some ''a@b.co'',
           user_phone = None, user_createdAt = 0, user_updatedAt = 0, user_did = None,
           user_didDocument = None, user_authMethods = [AUTH_EMAIL, AUTH_WEBAUTHN],
           user_isEmailVerified = True, user_isPhoneVerified = False,
           user_lastLogin = None \<rparr>"

definition adaKey :: WebAuthnCredential where
  "adaKey = \<lparr> cred_id = ''cred-1'', cred_userId = ''user-1'', cred_credentialId = ''a2V5LTE'',
              cred_publicKey = ''cHVibGlj'', cred_counter = 0, cred_transports = [''internal''],
              cred_deviceType = Some ''platform'', cred_createdAt = 0, cred_lastUsed = None \<rparr>"

definition openSession :: WebAuthnSession where
  "openSession = \<lparr> ws_challenge = ''challenge-1'', ws_userId = Some ''user-1'',
                   ws_email = Some ''a@b.co'', ws_phone = None, ws_expires = 600000,
                   ws_userVerification = Some ''preferred'' \<rparr>"

definition webauthnServer :: server where
  "webauthnServer =
     initialServer\<lparr>users := [''user-1'' \<mapsto> ada], emailIndex := [''a@b.co'' \<mapsto> ''user-1''],
       webauthnCredentials := [(''cred-1'', adaKey)],
       webauthnCredentialsByUser := [''user-1'' \<mapsto> [''cred-1'']],
       webAuthnSessions := [''sess-1'' \<mapsto> openSession]\<rparr>"

definition toyEnv :: "nat \<Rightarrow> WebAuthnEnv" where
  "toyEnv reported =
     \<lparr> we_now = 1000, we_uuid = ''cred-2'', we_RP_ID = ''localhost'',
       we_RP_ORIGIN = ''http://localhost:5173'',
       we_verifyRegistrationResponse =
         (\<lambda>opts. if rc_signedData (vr_response opts) = vr_expectedChallenge opts
                 then Verified True
                        (Some \<lparr> ri_credentialID = rc_id (vr_response opts),
                                ri_credentialPublicKey = ''cHVibGljLTI'', ri_counter = 0 \<rparr>)
                 else VerifyThrows ''Unexpected registration response challenge''),
       we_verifyAuthenticationResponse =
         (\<lambda>opts. if rc_signedData (va_response opts) = va_expectedChallenge opts
                 then Verified True (Some \<lparr> ai_newCounter = reported \<rparr>)
                 else VerifyThrows ''Unexpected authentication response challenge''),
       we_jwtSecret = Some ''secret'',
       we_jwtSign = (\<lambda>user authMethod. ''jwt:'' @ user_id user) \<rparr>"

definition assertionRequest :: "string \<Rightarrow> WebAuthnRequest" where
  "assertionRequest signedData =
     \<lparr> wr_sessionId = ''sess-1'',
       wr_credential = Some \<lparr> rc_id = ''a2V5LTE'', rc_transports = None,
                               rc_signedData = signedData \<rparr> \<rparr>"

definition attestationRequest :: "string \<Rightarrow> WebAuthnRequest" where
  "attestationRequest signedData =
     \<lparr> wr_sessionId = ''sess-1'',
       wr_credential = Some \<lparr> rc_id = ''a2V5LTI'', rc_transports = Some [''internal''],
                               rc_signedData = signedData \<rparr> \<rparr>"

text \<open>An environment and two requests for \<^verbatim>\<open>POST /api/auth/verify-otp\<close>.\<close>

definition authEnvAt :: "date \<Rightarrow> AuthEnv" where
  "authEnvAt t =
     \<lparr> ae_nowVerify = t, ae_nowModel = t, ae_now = t, ae_uuid = ''user-2'',
       ae_generateDID = None, ae_jwtSecret = Some ''secret'',
       ae_jwtSign = (\<lambda>user authMethod. ''jwt:'' @ user_id user) \<rparr>"

definition otpRequest :: "string \<Rightarrow> string \<Rightarrow> VerifyOtpRequest" where
  "otpRequest ident code =
     \<lparr> req_otpId = ident, req_code = code, req_registerUser = None, req_name = None,
       req_userAgent = None \<rparr>"

text \<open>
  The representation invariant of \<^verbatim>\<open>webauthnCredentials\<close>: the keys of a map are
  distinct, and \<^verbatim>\<open>storeWebAuthnCredential\<close> files each credential under its own
  \<^verbatim>\<open>id\<close>.
\<close>

definition credentialsKeyed :: "(string \<times> WebAuthnCredential) list \<Rightarrow> bool" where
  "credentialsKeyed creds =
     (distinct (map fst creds) \<and> list_all (\<lambda>(k, credential). cred_id credential = k) creds)"

text \<open>A verification that does not yield a verified result with its information.\<close>

definition verificationFailed :: "'info Verification \<Rightarrow> bool" where
  "verificationFailed v =
     (case v of VerifyThrows message \<Rightarrow> True
              | Verified verified info \<Rightarrow> \<not> verified \<or> info = None)"

section \<open>Properties of OTP issuance\<close>

subsection \<open>Accepted and rejected calls\<close>

lemma sendOtp_always: "sendOtp cfg method b"
  by (simp add: sendOtp_def)

lemma isRateLimited_True:
  "isRateLimited now recipient cache = (True, cache') \<Longrightarrow> cache' = cache"
  by (auto simp: isRateLimited_def Let_def split: option.splits if_splits)

lemma createAndSendOtp_invalid_email:
  "\<not> isValidEmail recipient \<Longrightarrow>
   createAndSendOtp cfg env recipient EMAIL purpose userId s =
     (Inl (Error ''Invalid email format''), s)"
  by (simp add: createAndSendOtp_def)

lemma createAndSendOtp_invalid_phone:
  "\<not> isValidPhone recipient \<Longrightarrow>
   createAndSendOtp cfg env recipient SMS purpose userId s =
     (Inl (Error ''Invalid phone number format''), s)"
  by (simp add: createAndSendOtp_def)

text \<open>
  For a well-formed recipient the call is decided by the rate limiter alone: the last
  \<^verbatim>\<open>throw\<close> of \<^verbatim>\<open>createAndSendOtp\<close> cannot be reached.
\<close>

lemma createAndSendOtp_valid:
  assumes "validRecipient method recipient"
  shows "createAndSendOtp cfg env recipient method purpose userId s =
     (case isRateLimited (nowCheck env) recipient (rateLimitCache s) of
        (True, cache) \<Rightarrow> (Inl rateLimitError, s)
      | (False, cache) \<Rightarrow>
          (case createOtp (nowCreate env) (otpUuid env) recipient method (generatedOtp env) userId
                  (invalidateOtps recipient (otpRecords s)) of
             (otpRecord, records) \<Rightarrow>
               (Inr otpRecord,
                s\<lparr>otpRecords := records,
                  rateLimitCache := updateRateLimit (nowUpdate env) recipient cache\<rparr>)))"
proof -
  have fmt: "\<not> (method = EMAIL \<and> \<not> isValidEmail recipient)"
    "\<not> (method = SMS \<and> \<not> isValidPhone recipient)"
    using assms by (auto simp: validRecipient_def)
  show ?thesis
  proof (cases "isRateLimited (nowCheck env) recipient (rateLimitCache s)")
    case (Pair limited cache)
    show ?thesis
    proof (cases limited)
      case True
      with Pair have "cache = rateLimitCache s" by (auto dest: isRateLimited_True)
      with Pair True fmt show ?thesis
        by (simp add: createAndSendOtp_def rateLimitError_def)
    next
      case False
      with Pair fmt show ?thesis
        by (simp add: createAndSendOtp_def sendOtp_always Let_def split: prod.splits)
    qed
  qed
qed

lemma createAndSendOtp_Inl_unchanged:
  assumes "createAndSendOtp cfg env recipient method purpose userId s = (Inl e, s')"
  shows "s' = s"
proof (cases "validRecipient method recipient")
  case True
  from assms show ?thesis
    unfolding createAndSendOtp_valid [OF True]
    by (auto split: prod.splits bool.splits)
next
  case False
  then show ?thesis using assms
    by (cases "method") (auto simp: validRecipient_def createAndSendOtp_def)
qed

subsection \<open>The concrete servers\<close>

lemma valid_ab: "validRecipient EMAIL ''a@b.co''"
  by (simp add: validRecipient_def isValidEmail_def emailChar_def isSpace_def)

lemma issuedOnce_otp1:
  "otpRecords issuedOnce ''otp-1'' =
     Some \<lparr> otp_id = ''otp-1'', otp_userId = None, otp_recipient = ''a@b.co'',
            otp_code = ''111111'', otp_method = EMAIL, otp_status = PENDING,
            otp_attempts = 0, otp_maxAttempts = 3, otp_createdAt = 0,
            otp_expiresAt = 600000, otp_verifiedAt = None \<rparr>"
  by (simp add: issuedOnce_def createAndSendOtp_valid [OF valid_ab] isRateLimited_def
      initialServer_def envAt_def createOtp_def invalidateOtps_def Let_def)

lemma issuedOnce_window:
  "rateLimitCache issuedOnce ''a@b.co'' =
     Some \<lparr> rl_count = 1, rl_firstAttempt = 0, rl_lastAttempt = 0 \<rparr>"
  by (simp add: issuedOnce_def createAndSendOtp_valid [OF valid_ab] isRateLimited_def
      initialServer_def envAt_def createOtp_def updateRateLimit_def Let_def)

lemma issuedTwice_otp1:
  "otpRecords issuedTwice ''otp-1'' =
     Some \<lparr> otp_id = ''otp-1'', otp_userId = None, otp_recipient = ''a@b.co'',
            otp_code = ''111111'', otp_method = EMAIL, otp_status = INVALID,
            otp_attempts = 0, otp_maxAttempts = 3, otp_createdAt = 0,
            otp_expiresAt = 600000, otp_verifiedAt = None \<rparr>"
  by (simp add: issuedTwice_def createAndSendOtp_valid [OF valid_ab] isRateLimited_def
      issuedOnce_window issuedOnce_otp1 envAt_def createOtp_def invalidateOtps_def Let_def)

subsection \<open>Reissue and the first code\<close>

text \<open>
  Claim C1. After a second successful issue for a recipient the record of the first issue
  has status invalid, and a later verify on the first challenge id should not yield
  status verified for any submitted code. The first half holds. The second does not:
  \<^verbatim>\<open>verifyOtp\<close> and \<^verbatim>\<open>UserModel.verifyOtp\<close> never read the stored status, so the
  original code, submitted before expiry and under the attempt limit, is accepted on
  the invalidated record. Evaluated on the server with two issues to \<^verbatim>\<open>a@b.co\<close>:
\<close>

theorem reissue_leaves_first_code_usable:
  "map_option otp_status (otpRecords issuedTwice ''otp-1'') = Some INVALID \<and>
   map_sum id (map_option otp_status)
     (fst (verifyOtp 2000 2000 ''otp-1'' ''111111'' issuedTwice)) = Inr (Some VERIFIED)"
  by (simp add: issuedTwice_otp1 verifyOtp_def getOtpById_def MAX_OTP_ATTEMPTS_def
      UserModel_verifyOtp_def Let_def)

text \<open>
  The same on every server: an issue that is let through turns a pending record of the
  recipient invalid, and the verification that follows accepts its code all the same.
\<close>

lemma reissue_invalidates_first:
  assumes "validRecipient method recipient"
    and "createAndSendOtp cfg env recipient method purpose userId s = (Inr r2, s2)"
    and "otpRecords s id1 = Some r1" and "otp_recipient r1 = recipient"
    and "otp_status r1 = PENDING" and "otpUuid env \<noteq> id1"
  shows "otpRecords s2 id1 = Some (r1\<lparr>otp_status := INVALID\<rparr>)"
  using assms(2-)
  unfolding createAndSendOtp_valid [OF assms(1)]
  by (auto simp: createOtp_def invalidateOtps_def Let_def split: prod.splits bool.splits)

lemma verifyOtp_ignores_status:
  assumes "otpRecords s otpId = Some r"
    and "\<not> now > otp_expiresAt r" and "\<not> now' > otp_expiresAt r"
    and "otp_attempts r < 3" and "otp_maxAttempts r = 3"
  shows "map_sum id (map_option otp_status) (fst (verifyOtp now now' otpId (otp_code r) s)) =
           Inr (Some VERIFIED)"
  using assms
  by (simp add: verifyOtp_def getOtpById_def MAX_OTP_ATTEMPTS_def UserModel_verifyOtp_def Let_def)

subsection \<open>Attempts\<close>

text \<open>
  Claim C2. For every OTP challenge record that is unexpired and on which the maximum
  of 3 verification attempts has already been made, any further verify call on that
  challenge id fails with the attempts-exhausted error for every submitted code, the
  correct one included, and leaves the stored state as it was.
\<close>

theorem verifyOtp_attempts_exhausted:
  assumes "otpRecords s otpId = Some r"
    and "\<not> now > otp_expiresAt r"
    and "otp_attempts r \<ge> 3"
  shows "verifyOtp now now' otpId code s =
           (Inl (Error ''Maximum verification attempts reached''), s)"
  using assms by (simp add: verifyOtp_def getOtpById_def MAX_OTP_ATTEMPTS_def)

text \<open>The correct code on a record with three attempts used, before its expiry.\<close>

theorem verifyOtp_attempts_exhausted_witness:
  "verifyOtp 5000 5001 ''otp-1'' ''111111'' exhaustedServer =
     (Inl (Error ''Maximum verification attempts reached''), exhaustedServer)"
  by (rule verifyOtp_attempts_exhausted
      [of exhaustedServer "''otp-1''" "pendingOtp\<lparr>otp_status := INVALID, otp_attempts := 3\<rparr>"])
    (simp_all add: exhaustedServer_def pendingOtp_def)

text \<open>
  Three wrong codes on a fresh record use up its attempts: the fourth call fails with
  the same error whatever its code.
\<close>

lemma three_wrong_codes_exhaust:
  assumes "otpRecords s otpId = Some r"
    and "otp_attempts r = 0" and "otp_maxAttempts r = 3"
    and "c1 \<noteq> otp_code r" and "c2 \<noteq> otp_code r" and "c3 \<noteq> otp_code r"
    and "\<not> t > otp_expiresAt r"
  shows "fst (verifyOtp t t otpId c4
           (snd (verifyOtp t t otpId c3
             (snd (verifyOtp t t otpId c2
               (snd (verifyOtp t t otpId c1 s))))))) =
         Inl (Error ''Maximum verification attempts reached'')"
  using assms
  by (simp add: verifyOtp_def getOtpById_def MAX_OTP_ATTEMPTS_def UserModel_verifyOtp_def Let_def)

text \<open>
  Claim C3, as stated: after a failed verification attempt that does not exhaust the
  attempt limit the stored status stays pending. It does not: one wrong code on a
  pending record with no attempt made stores status invalid, with one attempt of three.
\<close>

theorem failed_attempt_keeps_pending_counterexample:
  "map_option otp_status
     (snd (UserModel_verifyOtp 1000 ''otp-1'' ''000000'' [''otp-1'' \<mapsto> pendingOtp]) ''otp-1'') =
     Some INVALID \<and>
   map_option otp_attempts
     (snd (UserModel_verifyOtp 1000 ''otp-1'' ''000000'' [''otp-1'' \<mapsto> pendingOtp]) ''otp-1'') =
     Some 1 \<and>
   otp_status pendingOtp = PENDING \<and> otp_maxAttempts pendingOtp = 3 \<and>
   ''000000'' \<noteq> otp_code pendingOtp \<and> \<not> 1000 > otp_expiresAt pendingOtp"
  by (simp add: UserModel_verifyOtp_def pendingOtp_def Let_def)

text \<open>
  Claim C3, amended. A verification check writes at most one stored record, the one
  checked: every other record is left as it was, and a check of an unknown id changes
  nothing. On the checked record, in the order of the tests of the code: past its expiry
  the stored status becomes expired, whatever the attempts and the code; unexpired with
  the attempts at the maximum, the stored record is left unchanged; unexpired under the
  limit, the attempts are incremented by one and the stored status becomes verified
  (with the time of verification) for the correct code and invalid for a wrong one. So
  after a failed verification attempt that does not exhaust the attempt limit the stored
  status is invalid, not pending.
\<close>

theorem failed_attempt_sets_invalid:
  "(\<forall>k. k \<noteq> ident \<longrightarrow> snd (UserModel_verifyOtp now ident code records) k = records k) \<and>
   (records ident = None \<longrightarrow> UserModel_verifyOtp now ident code records = (None, records)) \<and>
   (\<forall>otp. records ident = Some otp \<longrightarrow>
      (now > otp_expiresAt otp \<longrightarrow>
         UserModel_verifyOtp now ident code records =
           (Some (otp\<lparr>otp_status := EXPIRED\<rparr>),
            records(ident \<mapsto> otp\<lparr>otp_status := EXPIRED\<rparr>))) \<and>
      (\<not> now > otp_expiresAt otp \<and> otp_attempts otp \<ge> otp_maxAttempts otp \<longrightarrow>
         UserModel_verifyOtp now ident code records = (Some otp, records)) \<and>
      (\<not> now > otp_expiresAt otp \<and> otp_attempts otp < otp_maxAttempts otp \<and>
       code = otp_code otp \<longrightarrow>
         UserModel_verifyOtp now ident code records =
           (Some (otp\<lparr>otp_attempts := otp_attempts otp + 1, otp_status := VERIFIED,
                       otp_verifiedAt := Some now\<rparr>),
            records(ident \<mapsto>
              otp\<lparr>otp_attempts := otp_attempts otp + 1, otp_status := VERIFIED,
                    otp_verifiedAt := Some now\<rparr>))) \<and>
      (\<not> now > otp_expiresAt otp \<and> otp_attempts otp < otp_maxAttempts otp \<and>
       code \<noteq> otp_code otp \<longrightarrow>
         UserModel_verifyOtp now ident code records =
           (Some (otp\<lparr>otp_attempts := otp_attempts otp + 1, otp_status := INVALID\<rparr>),
            records(ident \<mapsto>
              otp\<lparr>otp_attempts := otp_attempts otp + 1, otp_status := INVALID\<rparr>))))"
proof (intro conjI allI impI)
  fix k
  assume "k \<noteq> ident"
  then show "snd (UserModel_verifyOtp now ident code records) k = records k"
    by (simp add: UserModel_verifyOtp_def Let_def split: option.splits)
next
  assume "records ident = None"
  then show "UserModel_verifyOtp now ident code records = (None, records)"
    by (simp add: UserModel_verifyOtp_def)
next
  fix otp
  assume "records ident = Some otp" and "now > otp_expiresAt otp"
  then show "UserModel_verifyOtp now ident code records =
      (Some (otp\<lparr>otp_status := EXPIRED\<rparr>), records(ident \<mapsto> otp\<lparr>otp_status := EXPIRED\<rparr>))"
    by (simp add: UserModel_verifyOtp_def Let_def)
next
  fix otp
  assume "records ident = Some otp"
    and "\<not> now > otp_expiresAt otp \<and> otp_attempts otp \<ge> otp_maxAttempts otp"
  then show "UserModel_verifyOtp now ident code records = (Some otp, records)"
    by (simp add: UserModel_verifyOtp_def)
next
  fix otp
  assume "records ident = Some otp"
    and "\<not> now > otp_expiresAt otp \<and> otp_attempts otp < otp_maxAttempts otp \<and>
         code = otp_code otp"
  then show "UserModel_verifyOtp now ident code records =
      (Some (otp\<lparr>otp_attempts := otp_attempts otp + 1, otp_status := VERIFIED,
                  otp_verifiedAt := Some now\<rparr>),
       records(ident \<mapsto>
         otp\<lparr>otp_attempts := otp_attempts otp + 1, otp_status := VERIFIED,
               otp_verifiedAt := Some now\<rparr>))"
    by (simp add: UserModel_verifyOtp_def Let_def)
next
  fix otp
  assume "records ident = Some otp"
    and "\<not> now > otp_expiresAt otp \<and> otp_attempts otp < otp_maxAttempts otp \<and>
         code \<noteq> otp_code otp"
  then show "UserModel_verifyOtp now ident code records =
      (Some (otp\<lparr>otp_attempts := otp_attempts otp + 1, otp_status := INVALID\<rparr>),
       records(ident \<mapsto>
         otp\<lparr>otp_attempts := otp_attempts otp + 1, otp_status := INVALID\<rparr>))"
    by (simp add: UserModel_verifyOtp_def Let_def)
qed

text \<open>
  On the store of two pending records: a wrong code for the first stores it invalid with
  one attempt and leaves the second as it was; the correct code stores it verified; one
  millisecond past the expiry a check stores it expired, also with its attempts used up;
  before the expiry a check of the record with its attempts used up changes nothing;
  and a check of an unknown id changes nothing.
\<close>

theorem failed_attempt_sets_invalid_witness:
  "UserModel_verifyOtp 1000 ''otp-1'' ''000000'' twoRecords =
     (Some (pendingOtp\<lparr>otp_attempts := 1, otp_status := INVALID\<rparr>),
      twoRecords(''otp-1'' \<mapsto> pendingOtp\<lparr>otp_attempts := 1, otp_status := INVALID\<rparr>)) \<and>
   snd (UserModel_verifyOtp 1000 ''otp-1'' ''000000'' twoRecords) ''otp-2'' =
     Some (pendingOtp\<lparr>otp_id := ''otp-2'', otp_code := ''222222''\<rparr>) \<and>
   UserModel_verifyOtp 1000 ''otp-1'' ''111111'' twoRecords =
     (Some (pendingOtp\<lparr>otp_attempts := 1, otp_status := VERIFIED, otp_verifiedAt := Some 1000\<rparr>),
      twoRecords(''otp-1'' \<mapsto>
        pendingOtp\<lparr>otp_attempts := 1, otp_status := VERIFIED, otp_verifiedAt := Some 1000\<rparr>)) \<and>
   UserModel_verifyOtp 600001 ''otp-1'' ''111111''
      (twoRecords(''otp-1'' \<mapsto> pendingOtp\<lparr>otp_attempts := 3, otp_status := INVALID\<rparr>)) =
     (Some (pendingOtp\<lparr>otp_attempts := 3, otp_status := EXPIRED\<rparr>),
      twoRecords(''otp-1'' \<mapsto> pendingOtp\<lparr>otp_attempts := 3, otp_status := EXPIRED\<rparr>)) \<and>
   UserModel_verifyOtp 1000 ''otp-1'' ''111111''
      (twoRecords(''otp-1'' \<mapsto> pendingOtp\<lparr>otp_attempts := 3, otp_status := INVALID\<rparr>)) =
     (Some (pendingOtp\<lparr>otp_attempts := 3, otp_status := INVALID\<rparr>),
      twoRecords(''otp-1'' \<mapsto> pendingOtp\<lparr>otp_attempts := 3, otp_status := INVALID\<rparr>)) \<and>
   UserModel_verifyOtp 1000 ''otp-9'' ''111111'' twoRecords = (None, twoRecords)"
proof -
  let ?used = "pendingOtp\<lparr>otp_attempts := 3, otp_status := INVALID\<rparr>"
  have r1: "twoRecords ''otp-1'' = Some pendingOtp"
    and r2: "twoRecords ''otp-2'' = Some (pendingOtp\<lparr>otp_id := ''otp-2'', otp_code := ''222222''\<rparr>)"
    and r9: "twoRecords ''otp-9'' = None"
    by (simp_all add: twoRecords_def)
  have wrong: "UserModel_verifyOtp 1000 ''otp-1'' ''000000'' twoRecords =
      (Some (pendingOtp\<lparr>otp_attempts := 1, otp_status := INVALID\<rparr>),
       twoRecords(''otp-1'' \<mapsto> pendingOtp\<lparr>otp_attempts := 1, otp_status := INVALID\<rparr>))"
    using failed_attempt_sets_invalid [of "''otp-1''" 1000 "''000000''" twoRecords] r1
    by (simp add: pendingOtp_def)
  have frame: "snd (UserModel_verifyOtp 1000 ''otp-1'' ''000000'' twoRecords) ''otp-2'' =
      twoRecords ''otp-2''"
    using failed_attempt_sets_invalid [of "''otp-1''" 1000 "''000000''" twoRecords]
    by (elim conjE allE [of _ "''otp-2''"]) simp
  have right: "UserModel_verifyOtp 1000 ''otp-1'' ''111111'' twoRecords =
      (Some (pendingOtp\<lparr>otp_attempts := 1, otp_status := VERIFIED, otp_verifiedAt := Some 1000\<rparr>),
       twoRecords(''otp-1'' \<mapsto>
         pendingOtp\<lparr>otp_attempts := 1, otp_status := VERIFIED, otp_verifiedAt := Some 1000\<rparr>))"
    using failed_attempt_sets_invalid [of "''otp-1''" 1000 "''111111''" twoRecords] r1
    by (simp add: pendingOtp_def)
  have late: "UserModel_verifyOtp 600001 ''otp-1'' ''111111'' (twoRecords(''otp-1'' \<mapsto> ?used)) =
      (Some (pendingOtp\<lparr>otp_attempts := 3, otp_status := EXPIRED\<rparr>),
       twoRecords(''otp-1'' \<mapsto> pendingOtp\<lparr>otp_attempts := 3, otp_status := EXPIRED\<rparr>))"
    using failed_attempt_sets_invalid
      [of "''otp-1''" 600001 "''111111''" "twoRecords(''otp-1'' \<mapsto> ?used)"]
    by (simp add: pendingOtp_def)
  have used: "UserModel_verifyOtp 1000 ''otp-1'' ''111111'' (twoRecords(''otp-1'' \<mapsto> ?used)) =
      (Some ?used, twoRecords(''otp-1'' \<mapsto> ?used))"
    using failed_attempt_sets_invalid
      [of "''otp-1''" 1000 "''111111''" "twoRecords(''otp-1'' \<mapsto> ?used)"]
    by (simp add: pendingOtp_def)
  have unknown: "UserModel_verifyOtp 1000 ''otp-9'' ''111111'' twoRecords = (None, twoRecords)"
    using failed_attempt_sets_invalid [of "''otp-9''" 1000 "''111111''" twoRecords] r9
    by simp
  show ?thesis
    using wrong frame r2 right late used unknown by simp
qed

subsection \<open>Expiry\<close>

lemma verifyOtp_expired:
  assumes "otpRecords s otpId = Some r" and "now > otp_expiresAt r"
  shows "verifyOtp now now' otpId code s = (Inr (Some (r\<lparr>otp_status := EXPIRED\<rparr>)), s)"
  using assms by (simp add: verifyOtp_def getOtpById_def)

lemma UserModel_verifyOtp_expired:
  assumes "records ident = Some otp" and "now > otp_expiresAt otp"
  shows "UserModel_verifyOtp now ident code records =
     (Some (otp\<lparr>otp_status := EXPIRED\<rparr>), records(ident \<mapsto> otp\<lparr>otp_status := EXPIRED\<rparr>))"
  using assms by (simp add: UserModel_verifyOtp_def Let_def)

text \<open>
  Claim C4. A verify call made after the expiry timestamp returns the record with
  status expired whatever the code, and the stored record should turn to expired.
  \<^verbatim>\<open>UserModel.verifyOtp\<close> stores the expired record (\<open>UserModel_verifyOtp_expired\<close>),
  but \<^verbatim>\<open>verifyOtp\<close> of \<^verbatim>\<open>utils/otp.ts\<close>, the call the route makes, returns an expired
  copy before it reaches the user model (\<open>verifyOtp_expired\<close>): the stored record keeps
  the status it had. Evaluated one millisecond after the expiry of a pending record:
\<close>

theorem expired_verify_leaves_stored_status:
  "map_sum id (map_option otp_status)
     (fst (verifyOtp 600001 600002 ''otp-1'' ''111111'' issuedOnce)) = Inr (Some EXPIRED) \<and>
   snd (verifyOtp 600001 600002 ''otp-1'' ''111111'' issuedOnce) = issuedOnce \<and>
   map_option otp_status (otpRecords issuedOnce ''otp-1'') = Some PENDING \<and>
   map_option otp_expiresAt (otpRecords issuedOnce ''otp-1'') = Some 600000"
  by (simp add: verifyOtp_def getOtpById_def issuedOnce_otp1)

subsection \<open>The rate limit window\<close>

text \<open>The three moves of the window of a recipient under an issuance request.\<close>

lemma issue_opens_window:
  assumes "validRecipient method recipient"
    and "rateLimitCache s recipient = None \<or>
         (\<exists>w. rateLimitCache s recipient = Some w \<and>
              rl_firstAttempt w < nowCheck env - 60 * 60 * 1000)"
  shows "\<exists>otp s' w'. createAndSendOtp cfg env recipient method purpose userId s = (Inr otp, s') \<and>
           rateLimitCache s' recipient = Some w' \<and> rl_count w' = 1 \<and>
           rl_firstAttempt w' = nowUpdate env"
  using assms(2)
  by (auto simp: createAndSendOtp_valid [OF assms(1)] isRateLimited_def updateRateLimit_def
      createOtp_def Let_def)

lemma issue_counts:
  assumes "validRecipient method recipient"
    and "rateLimitCache s recipient = Some w"
    and "\<not> rl_firstAttempt w < nowCheck env - 60 * 60 * 1000"
    and "rl_count w < 5"
  shows "\<exists>otp s' w'. createAndSendOtp cfg env recipient method purpose userId s = (Inr otp, s') \<and>
           rateLimitCache s' recipient = Some w' \<and> rl_count w' = rl_count w + 1 \<and>
           rl_firstAttempt w' = rl_firstAttempt w"
  using assms(2-)
  by (auto simp: createAndSendOtp_valid [OF assms(1)] isRateLimited_def updateRateLimit_def
      createOtp_def Let_def)

lemma issue_rejected:
  assumes "validRecipient method recipient"
    and "rateLimitCache s recipient = Some w"
    and "\<not> rl_firstAttempt w < nowCheck env - 60 * 60 * 1000"
    and "5 \<le> rl_count w"
  shows "createAndSendOtp cfg env recipient method purpose userId s = (Inl rateLimitError, s)"
  using assms(2-)
  by (auto simp: createAndSendOtp_valid [OF assms(1)] isRateLimited_def Let_def)

text \<open>
  Claim C5. For every recipient (of a valid format for its channel, with no window left
  from an earlier hour), the first 5 issuance requests within one hour of the first
  recorded attempt are allowed and the 6th is rejected as rate limited; once the clock
  is more than one hour past the first recorded attempt the window resets and the next
  request succeeds, opening a new window.
\<close>

theorem rate_limit_five_per_hour:
  assumes valid: "validRecipient method recipient"
    and first: "rateLimitCache s recipient = None \<or>
         (\<exists>w. rateLimitCache s recipient = Some w \<and>
              rl_firstAttempt w < nowCheck e1 - 60 * 60 * 1000)"
    and within: "\<forall>e \<in> set [e2, e3, e4, e5, e6]. \<not> nowUpdate e1 < nowCheck e - 60 * 60 * 1000"
    and past: "nowUpdate e1 < nowCheck e7 - 60 * 60 * 1000"
  shows "\<exists>r1 r2 r3 r4 r5 r7 s' w'.
           issueAll cfg recipient method purpose userId [e1, e2, e3, e4, e5, e6, e7] s =
             ([Inr r1, Inr r2, Inr r3, Inr r4, Inr r5, Inl rateLimitError, Inr r7], s') \<and>
           rateLimitCache s' recipient = Some w' \<and> rl_count w' = 1 \<and>
           rl_firstAttempt w' = nowUpdate e7"
proof -
  let ?issue = "\<lambda>e. createAndSendOtp cfg e recipient method purpose userId"
  let ?t = "nowUpdate e1"
  obtain r1 s1 w1 where 1: "?issue e1 s = (Inr r1, s1)"
    and w1: "rateLimitCache s1 recipient = Some w1" "rl_count w1 = 1" "rl_firstAttempt w1 = ?t"
    using issue_opens_window [OF valid first] by blast
  obtain r2 s2 w2 where 2: "?issue e2 s1 = (Inr r2, s2)"
    and w2: "rateLimitCache s2 recipient = Some w2" "rl_count w2 = 2" "rl_firstAttempt w2 = ?t"
    using issue_counts [OF valid w1(1), of e2 cfg purpose userId] w1 within by auto
  obtain r3 s3 w3 where 3: "?issue e3 s2 = (Inr r3, s3)"
    and w3: "rateLimitCache s3 recipient = Some w3" "rl_count w3 = 3" "rl_firstAttempt w3 = ?t"
    using issue_counts [OF valid w2(1), of e3 cfg purpose userId] w2 within by auto
  obtain r4 s4 w4 where 4: "?issue e4 s3 = (Inr r4, s4)"
    and w4: "rateLimitCache s4 recipient = Some w4" "rl_count w4 = 4" "rl_firstAttempt w4 = ?t"
    using issue_counts [OF valid w3(1), of e4 cfg purpose userId] w3 within by auto
  obtain r5 s5 w5 where 5: "?issue e5 s4 = (Inr r5, s5)"
    and w5: "rateLimitCache s5 recipient = Some w5" "rl_count w5 = 5" "rl_firstAttempt w5 = ?t"
    using issue_counts [OF valid w4(1), of e5 cfg purpose userId] w4 within by auto
  have 6: "?issue e6 s5 = (Inl rateLimitError, s5)"
    using issue_rejected [OF valid w5(1), of e6 cfg purpose userId] w5 within by auto
  obtain r7 s7 w7 where 7: "?issue e7 s5 = (Inr r7, s7)"
    and w7: "rateLimitCache s7 recipient = Some w7" "rl_count w7 = 1"
      "rl_firstAttempt w7 = nowUpdate e7"
    using issue_opens_window [OF valid, of s5 e7 cfg purpose userId] w5 past by auto
  show ?thesis
    using 1 2 3 4 5 6 7 w7 by simp
qed

text \<open>
  Seven requests for \<^verbatim>\<open>a@b.co\<close> on a fresh server: five within the first seconds, the
  sixth exactly one hour after the first, the seventh one millisecond later.
\<close>

theorem rate_limit_five_per_hour_witness:
  "map isl (fst (issueAll consoleConfig ''a@b.co'' EMAIL ''login'' None
      [envAt 0 ''otp-1'' ''111111'', envAt 1000 ''otp-2'' ''222222'',
       envAt 2000 ''otp-3'' ''333333'', envAt 3000 ''otp-4'' ''444444'',
       envAt 4000 ''otp-5'' ''555555'', envAt 3600000 ''otp-6'' ''666666'',
       envAt 3600001 ''otp-7'' ''777777''] initialServer)) =
     [False, False, False, False, False, True, False]"
proof -
  have "rateLimitCache initialServer ''a@b.co'' = None"
    by (simp add: initialServer_def)
  from rate_limit_five_per_hour [OF valid_ab, of initialServer "envAt 0 ''otp-1'' ''111111''"
      "envAt 1000 ''otp-2'' ''222222''" "envAt 2000 ''otp-3'' ''333333''"
      "envAt 3000 ''otp-4'' ''444444''" "envAt 4000 ''otp-5'' ''555555''"
      "envAt 3600000 ''otp-6'' ''666666''" "envAt 3600001 ''otp-7'' ''777777''"
      consoleConfig "''login''" None] this
  obtain rs where "fst (issueAll consoleConfig ''a@b.co'' EMAIL ''login'' None
      [envAt 0 ''otp-1'' ''111111'', envAt 1000 ''otp-2'' ''222222'',
       envAt 2000 ''otp-3'' ''333333'', envAt 3000 ''otp-4'' ''444444'',
       envAt 4000 ''otp-5'' ''555555'', envAt 3600000 ''otp-6'' ''666666'',
       envAt 3600001 ''otp-7'' ''777777''] initialServer) = rs"
    and "map isl rs = [False, False, False, False, False, True, False]"
    by (auto simp: envAt_def)
  then show ?thesis by simp
qed

subsection \<open>Rejected requests\<close>

text \<open>
  Claim C10. Whenever \<^verbatim>\<open>createAndSendOtp\<close> rejects a request because the recipient is
  rate limited or its format is invalid for its channel, no stored state changes: the
  window of the recipient is not incremented and no pending record is invalidated.
\<close>

theorem rejected_issue_changes_nothing:
  assumes "createAndSendOtp cfg env recipient method purpose userId s = (Inl e, s')"
    and "e = rateLimitError \<or> e = Error ''Invalid email format'' \<or>
         e = Error ''Invalid phone number format''"
  shows "s' = s \<and> rateLimitCache s' recipient = rateLimitCache s recipient \<and>
         otpRecords s' = otpRecords s"
  using createAndSendOtp_Inl_unchanged [OF assms(1)] by simp

text \<open>
  A sixth request within the hour on a server that holds a pending record of the
  recipient: it is rejected, the server is the same and the record is still pending.
\<close>

theorem rejected_issue_changes_nothing_witness:
  "fst (createAndSendOtp consoleConfig (envAt 5000 ''otp-6'' ''666666'') ''a@b.co'' EMAIL ''login''
          None limitedServer) = Inl rateLimitError \<and>
   snd (createAndSendOtp consoleConfig (envAt 5000 ''otp-6'' ''666666'') ''a@b.co'' EMAIL ''login''
          None limitedServer) = limitedServer \<and>
   map_option otp_status (otpRecords limitedServer ''otp-2'') = Some PENDING"
proof -
  let ?call = "createAndSendOtp consoleConfig (envAt 5000 ''otp-6'' ''666666'') ''a@b.co'' EMAIL
     ''login'' None limitedServer"
  have w: "rateLimitCache limitedServer ''a@b.co'' =
      Some \<lparr> rl_count = 5, rl_firstAttempt = 0, rl_lastAttempt = 4000 \<rparr>"
    by (simp add: limitedServer_def)
  have res: "fst ?call = Inl rateLimitError"
    by (simp add: createAndSendOtp_valid [OF valid_ab] isRateLimited_def w envAt_def)
  then have "?call = (Inl rateLimitError, snd ?call)"
    by (metis prod.collapse)
  from rejected_issue_changes_nothing [OF this] have "snd ?call = limitedServer"
    by simp
  moreover have "map_option otp_status (otpRecords limitedServer ''otp-2'') = Some PENDING"
    by (simp add: limitedServer_def issuedTwice_def createAndSendOtp_valid [OF valid_ab]
        isRateLimited_def issuedOnce_window envAt_def createOtp_def Let_def)
  ultimately show ?thesis using res by simp
qed

section \<open>Properties of the verify-otp route\<close>

lemma verifyOtp_never_null: "fst (verifyOtp now now' otpId code s) \<noteq> Inr None"
  by (simp add: verifyOtp_def getOtpById_def split: option.splits prod.splits)

lemma verifyOtp_unknown:
  "otpRecords s otpId = None \<Longrightarrow> verifyOtp now now' otpId code s = (Inl (Error ''Invalid OTP ID''), s)"
  by (simp add: verifyOtp_def getOtpById_def)

text \<open>
  Every error \<^verbatim>\<open>otpUtils.verifyOtp\<close> throws is answered by the \<^verbatim>\<open>catch\<close> of the
  handler with one and the same response.
\<close>

lemma postVerifyOtp_throw:
  assumes "verifyOtpRequestValid req"
    and "verifyOtp (ae_nowVerify env) (ae_nowModel env) (req_otpId req) (req_code req) s = (Inl e, s')"
  shows "postVerifyOtp env req s = (verifyOtpFailed, s')"
  using assms by (simp add: postVerifyOtp_def)

text \<open>
  The handler has a branch for a \<^verbatim>\<open>null\<close> result with the message
  \<^verbatim>\<open>Invalid OTP ID\<close>, but \<^verbatim>\<open>verifyOtp\<close> throws where its comment promises \<^verbatim>\<open>null\<close>:
  no request is answered with that message.
\<close>

lemma resolveUser_Return_message:
  "resolveUser env req otpRecord authMethod s = (Return r, s') \<Longrightarrow>
   res_message r \<noteq> ''Invalid OTP ID''"
  by (auto simp: resolveUser_def errorResponse_def noAccountMessage_def Let_def
      split: option.splits if_splits sum.splits prod.splits)

lemma postVerifyOtp_never_invalid_id:
  "res_message (fst (postVerifyOtp env req s)) \<noteq> ''Invalid OTP ID''"
proof (cases "verifyOtpRequestValid req")
  case False
  then show ?thesis by (simp add: postVerifyOtp_def errorResponse_def)
next
  case True
  obtain r s1 where v:
    "verifyOtp (ae_nowVerify env) (ae_nowModel env) (req_otpId req) (req_code req) s = (r, s1)"
    by (cases "verifyOtp (ae_nowVerify env) (ae_nowModel env) (req_otpId req) (req_code req) s")
  have nn: "r \<noteq> Inr None"
    using verifyOtp_never_null [of "ae_nowVerify env" "ae_nowModel env" "req_otpId req"
        "req_code req" s] v by simp
  show ?thesis
  proof (cases r)
    case (Inl e)
    with True v show ?thesis
      by (simp add: postVerifyOtp_def verifyOtpFailed_def errorResponse_def)
  next
    case (Inr ro)
    with nn obtain otpRecord where ro: "r = Inr (Some otpRecord)" by (cases ro) auto
    let ?am = "if otp_method otpRecord = EMAIL then AUTH_EMAIL else AUTH_PHONE"
    obtain u s2 where ru: "resolveUser env req otpRecord ?am s1 = (u, s2)"
      by (cases "resolveUser env req otpRecord ?am s1")
    show ?thesis
    proof (cases u)
      case (Throw e)
      with True v ro ru show ?thesis
        by (simp add: postVerifyOtp_def verifyOtpFailed_def errorResponse_def Let_def)
    next
      case (Return response)
      with ru have "res_message response \<noteq> ''Invalid OTP ID''"
        by (auto dest: resolveUser_Return_message)
      with True v ro ru Return show ?thesis
        by (simp add: postVerifyOtp_def errorResponse_def Let_def)
    next
      case (Continue p)
      obtain user isNewUser where p: "p = (user, isNewUser)" by (cases p)
      with True v ro ru Continue show ?thesis
        by (simp add: postVerifyOtp_def verifyOtpFailed_def errorResponse_def successResponse_def
            Let_def split: sum.splits)
    qed
  qed
qed

text \<open>
  Claim C9. A verify-OTP request whose check fails with an unknown challenge id or with
  exhausted attempts should be answered by a structured error that identifies that
  failure, never by a generic internal server error. Both are answered with status 500,
  \<^verbatim>\<open>Internal Server Error\<close> and the same message. Evaluated for an unknown id on the
  fresh server and for the correct code on a record with three attempts used:
\<close>

theorem unknown_and_exhausted_answered_500:
  "postVerifyOtp (authEnvAt 5000) (otpRequest ''no-such-id'' ''111111'') initialServer =
     (verifyOtpFailed, initialServer) \<and>
   postVerifyOtp (authEnvAt 5000) (otpRequest ''otp-1'' ''111111'') exhaustedServer =
     (verifyOtpFailed, exhaustedServer) \<and>
   res_status verifyOtpFailed = 500 \<and>
   res_error verifyOtpFailed = Some ''Internal Server Error'' \<and>
   res_message verifyOtpFailed = ''Failed to verify OTP. Please try again later.''"
proof -
  have v: "verifyOtpRequestValid (otpRequest ''no-such-id'' ''111111'')"
    "verifyOtpRequestValid (otpRequest ''otp-1'' ''111111'')"
    by (simp_all add: verifyOtpRequestValid_def otpRequest_def)
  have 1: "verifyOtp 5000 5000 ''no-such-id'' ''111111'' initialServer =
      (Inl (Error ''Invalid OTP ID''), initialServer)"
    by (simp add: verifyOtp_unknown initialServer_def)
  have 2: "verifyOtp 5000 5000 ''otp-1'' ''111111'' exhaustedServer =
      (Inl (Error ''Maximum verification attempts reached''), exhaustedServer)"
    by (simp add: verifyOtp_def getOtpById_def exhaustedServer_def pendingOtp_def
        MAX_OTP_ATTEMPTS_def)
  show ?thesis
    using postVerifyOtp_throw [OF v(1), of "authEnvAt 5000" initialServer]
      postVerifyOtp_throw [OF v(2), of "authEnvAt 5000" exhaustedServer] 1 2
    by (simp add: authEnvAt_def otpRequest_def verifyOtpFailed_def errorResponse_def)
qed

section \<open>Properties of the WebAuthn ceremonies\<close>

lemma status_simps [simp]:
  "res_status (errorResponse code err message) = code"
  "res_status (fallbackResponse code err message) = code"
  "res_status (successResponse message) = 200"
  by (simp_all add: errorResponse_def fallbackResponse_def successResponse_def)

lemma registration_not_200_unchanged:
  "res_status (fst (postVerifyRegistration env req s)) \<noteq> 200 \<Longrightarrow>
   snd (postVerifyRegistration env req s) = s"
  by (auto simp: postVerifyRegistration_def Let_def
      split: option.splits Verification.splits prod.splits if_splits)

text \<open>
  Claim C6. For every registration completion request whose attestation verification
  fails (the verifier throws, or returns a result that is not verified or has no
  registration information; a response made for another challenge is such a case), the
  request returns a failure and no WebAuthn credential record is created: the server,
  and so its credential store, is unchanged.
\<close>

theorem failed_registration_stores_nothing:
  assumes "wr_sessionId req \<noteq> []" and "wr_credential req = Some credential"
    and "webAuthnSessions s (wr_sessionId req) = Some session"
    and "ws_userId session = Some userId" and "users s userId = Some user"
    and "verificationFailed
           (we_verifyRegistrationResponse env (registrationVerifyOptions env session credential))"
  shows "res_status (fst (postVerifyRegistration env req s)) = 400 \<and>
         res_error (fst (postVerifyRegistration env req s)) = Some ''Verification Error'' \<and>
         \<not> res_success (fst (postVerifyRegistration env req s)) \<and>
         snd (postVerifyRegistration env req s) = s \<and>
         webauthnCredentials (snd (postVerifyRegistration env req s)) = webauthnCredentials s \<and>
         webauthnCredentialsByUser (snd (postVerifyRegistration env req s)) =
           webauthnCredentialsByUser s"
  using assms
  by (auto simp: postVerifyRegistration_def verificationFailed_def getUserById_def Let_def
      errorResponse_def split: Verification.splits)

text \<open>
  A response signed for another challenge than the one of the session: the toy verifier
  throws, the answer is 400 and the only stored credential is the one from before.
\<close>

theorem failed_registration_stores_nothing_witness:
  "res_status (fst (postVerifyRegistration (toyEnv 0) (attestationRequest ''tampered'')
      webauthnServer)) = 400 \<and>
   snd (postVerifyRegistration (toyEnv 0) (attestationRequest ''tampered'') webauthnServer) =
     webauthnServer \<and>
   webauthnCredentials (snd (postVerifyRegistration (toyEnv 0) (attestationRequest ''tampered'')
      webauthnServer)) = [(''cred-1'', adaKey)]"
proof -
  have "verificationFailed (we_verifyRegistrationResponse (toyEnv 0)
      (registrationVerifyOptions (toyEnv 0) openSession
        \<lparr> rc_id = ''a2V5LTI'', rc_transports = Some [''internal''],
          rc_signedData = ''tampered'' \<rparr>))"
    by (simp add: verificationFailed_def toyEnv_def registrationVerifyOptions_def openSession_def)
  from failed_registration_stores_nothing [of "attestationRequest ''tampered''" _ webauthnServer
      openSession "''user-1''" ada "toyEnv 0", OF _ _ _ _ _ this]
  show ?thesis
    by (simp add: attestationRequest_def webauthnServer_def initialServer_def openSession_def)
qed

subsection \<open>Sessions are used once\<close>

lemma sessions_addAuthMethod [simp]:
  "webAuthnSessions (snd (addAuthMethod now userId m s)) = webAuthnSessions s"
  by (simp add: addAuthMethod_def Let_def split: option.splits)

lemma sessions_updateLastLogin [simp]:
  "webAuthnSessions (snd (updateLastLogin now userId s)) = webAuthnSessions s"
  by (simp add: updateLastLogin_def Let_def split: option.splits)

lemma sessions_updateCounter [simp]:
  "webAuthnSessions (snd (updateWebAuthnCredentialCounter now ident n s)) = webAuthnSessions s"
  by (simp add: updateWebAuthnCredentialCounter_def Let_def split: option.splits)

lemma sessions_store [simp]:
  "webAuthnSessions (snd (storeWebAuthnCredential now uuid userId cid pk n ts dt s)) =
     webAuthnSessions s"
  by (simp add: storeWebAuthnCredential_def Let_def)

lemma registration_success_consumes:
  "res_status (fst (postVerifyRegistration env req s)) = 200 \<Longrightarrow>
   webAuthnSessions (snd (postVerifyRegistration env req s)) (wr_sessionId req) = None"
  by (auto simp: postVerifyRegistration_def Let_def
      split: option.splits Verification.splits prod.splits if_splits)

lemma authentication_success_consumes:
  "res_status (fst (postVerifyAuthentication env req s)) = 200 \<Longrightarrow>
   webAuthnSessions (snd (postVerifyAuthentication env req s)) (wr_sessionId req) = None"
  by (auto simp: postVerifyAuthentication_def Let_def
      split: option.splits Verification.splits prod.splits if_splits sum.splits)

lemma registration_unknown_session:
  assumes "webAuthnSessions s (wr_sessionId req) = None"
    and "wr_sessionId req \<noteq> []" and "wr_credential req \<noteq> None"
  shows "postVerifyRegistration env req s =
     (errorResponse 400 ''Invalid Session'' ''Registration session not found or expired'', s)"
  using assms by (auto simp: postVerifyRegistration_def)

lemma authentication_unknown_session:
  assumes "webAuthnSessions s (wr_sessionId req) = None"
    and "wr_sessionId req \<noteq> []" and "wr_credential req \<noteq> None"
  shows "postVerifyAuthentication env req s =
     (errorResponse 400 ''Invalid Session'' ''Authentication session not found or expired'', s)"
  using assms by (auto simp: postVerifyAuthentication_def)

text \<open>
  Neither completion handler creates a session: an id that names no session names none
  after any further completion request, so a consumed session stays consumed until
  \<^verbatim>\<open>uuidv4\<close> gives the same id to a new ceremony.
\<close>

lemma registration_creates_no_session:
  "webAuthnSessions s sid = None \<Longrightarrow>
   webAuthnSessions (snd (postVerifyRegistration env req s)) sid = None"
  by (auto simp: postVerifyRegistration_def Let_def split_beta
      split: option.splits Verification.splits if_splits)

lemma authentication_creates_no_session:
  "webAuthnSessions s sid = None \<Longrightarrow>
   webAuthnSessions (snd (postVerifyAuthentication env req s)) sid = None"
  by (auto simp: postVerifyAuthentication_def Let_def
      split: option.splits Verification.splits sum.splits if_splits)

lemma registration_success_valid:
  "res_status (fst (postVerifyRegistration env req s)) = 200 \<Longrightarrow> wr_sessionId req \<noteq> []"
  by (auto simp: postVerifyRegistration_def)

lemma authentication_success_valid:
  "res_status (fst (postVerifyAuthentication env req s)) = 200 \<Longrightarrow> wr_sessionId req \<noteq> []"
  by (auto simp: postVerifyAuthentication_def)

text \<open>
  Claim C7. Every WebAuthn session is single-use: a successful completion of the
  authentication or of the registration ceremony deletes the session, and a later
  completion request that presents the same session id (with a credential, so that it
  passes the validation of the route) is rejected with the session-not-found error.
\<close>

theorem consumed_session_rejected:
  assumes "wr_sessionId req' = wr_sessionId req" and "wr_credential req' \<noteq> None"
  shows "(res_status (fst (postVerifyAuthentication env req s)) = 200 \<longrightarrow>
            webAuthnSessions (snd (postVerifyAuthentication env req s)) (wr_sessionId req) = None \<and>
            postVerifyAuthentication env' req' (snd (postVerifyAuthentication env req s)) =
              (errorResponse 400 ''Invalid Session'' ''Authentication session not found or expired'',
               snd (postVerifyAuthentication env req s))) \<and>
         (res_status (fst (postVerifyRegistration env req s)) = 200 \<longrightarrow>
            webAuthnSessions (snd (postVerifyRegistration env req s)) (wr_sessionId req) = None \<and>
            postVerifyRegistration env' req' (snd (postVerifyRegistration env req s)) =
              (errorResponse 400 ''Invalid Session'' ''Registration session not found or expired'',
               snd (postVerifyRegistration env req s)))"
proof (intro conjI impI)
  assume ok: "res_status (fst (postVerifyAuthentication env req s)) = 200"
  show gone: "webAuthnSessions (snd (postVerifyAuthentication env req s)) (wr_sessionId req) = None"
    by (rule authentication_success_consumes [OF ok])
  show "postVerifyAuthentication env' req' (snd (postVerifyAuthentication env req s)) =
      (errorResponse 400 ''Invalid Session'' ''Authentication session not found or expired'',
       snd (postVerifyAuthentication env req s))"
    using authentication_unknown_session [of "snd (postVerifyAuthentication env req s)" req' env']
      gone assms authentication_success_valid [OF ok] by simp
next
  assume ok: "res_status (fst (postVerifyRegistration env req s)) = 200"
  show gone: "webAuthnSessions (snd (postVerifyRegistration env req s)) (wr_sessionId req) = None"
    by (rule registration_success_consumes [OF ok])
  show "postVerifyRegistration env' req' (snd (postVerifyRegistration env req s)) =
      (errorResponse 400 ''Invalid Session'' ''Registration session not found or expired'',
       snd (postVerifyRegistration env req s))"
    using registration_unknown_session [of "snd (postVerifyRegistration env req s)" req' env']
      gone assms registration_success_valid [OF ok] by simp
qed

lemma toy_authentication_ok:
  "res_status (fst (postVerifyAuthentication (toyEnv 0) (assertionRequest ''challenge-1'')
     webauthnServer)) = 200"
  by (simp add: postVerifyAuthentication_def toyEnv_def assertionRequest_def webauthnServer_def
      initialServer_def openSession_def ada_def adaKey_def getUserById_def
      getWebAuthnCredentialByCredentialId_def authenticationVerifyOptions_def
      generateToken_def truthy_def Let_def)

lemma toy_registration_ok:
  "res_status (fst (postVerifyRegistration (toyEnv 0) (attestationRequest ''challenge-1'')
     webauthnServer)) = 200"
  by (simp add: postVerifyRegistration_def toyEnv_def attestationRequest_def webauthnServer_def
      initialServer_def openSession_def ada_def getUserById_def
      registrationVerifyOptions_def Let_def split: prod.splits)

text \<open>
  The same request sent twice, for an authentication and for a registration: 200, then
  the session is not found.
\<close>

theorem consumed_session_rejected_witness:
  "res_status (fst (postVerifyAuthentication (toyEnv 0) (assertionRequest ''challenge-1'')
      webauthnServer)) = 200 \<and>
   fst (postVerifyAuthentication (toyEnv 0) (assertionRequest ''challenge-1'')
      (snd (postVerifyAuthentication (toyEnv 0) (assertionRequest ''challenge-1'') webauthnServer))) =
     errorResponse 400 ''Invalid Session'' ''Authentication session not found or expired'' \<and>
   res_status (fst (postVerifyRegistration (toyEnv 0) (attestationRequest ''challenge-1'')
      webauthnServer)) = 200 \<and>
   fst (postVerifyRegistration (toyEnv 0) (attestationRequest ''challenge-1'')
      (snd (postVerifyRegistration (toyEnv 0) (attestationRequest ''challenge-1'') webauthnServer))) =
     errorResponse 400 ''Invalid Session'' ''Registration session not found or expired''"
  using consumed_session_rejected [of "assertionRequest ''challenge-1''"
      "assertionRequest ''challenge-1''" "toyEnv 0" webauthnServer "toyEnv 0"]
    consumed_session_rejected [of "attestationRequest ''challenge-1''"
      "attestationRequest ''challenge-1''" "toyEnv 0" webauthnServer "toyEnv 0"]
    toy_authentication_ok toy_registration_ok
  by (simp add: assertionRequest_def attestationRequest_def)

subsection \<open>The signature counter\<close>

lemma credentialsKeyed_find:
  assumes "credentialsKeyed creds" and "find P (map snd creds) = Some c"
  shows "map_of creds (cred_id c) = Some c"
proof -
  from assms(2) have "c \<in> set (map snd creds)"
    by (auto simp: find_Some_iff)
  then obtain k where k: "(k, c) \<in> set creds" by auto
  with assms(1) have "cred_id c = k"
    by (auto simp: credentialsKeyed_def list_all_iff)
  with k assms(1) show ?thesis
    by (simp add: credentialsKeyed_def)
qed

lemma credentials_updateLastLogin [simp]:
  "webauthnCredentials (snd (updateLastLogin now userId s)) = webauthnCredentials s"
  by (simp add: updateLastLogin_def Let_def split: option.splits)

lemma credentials_addAuthMethod [simp]:
  "webauthnCredentials (snd (addAuthMethod now userId m s)) = webauthnCredentials s"
  by (simp add: addAuthMethod_def Let_def split: option.splits)

lemma updateCounter_stored:
  assumes "map_of (webauthnCredentials s) ident = Some c"
  shows "map_of (webauthnCredentials (snd (updateWebAuthnCredentialCounter now ident n s))) ident =
           Some (c\<lparr>cred_counter := n, cred_lastUsed := Some now\<rparr>)"
  using assms by (simp add: updateWebAuthnCredentialCounter_def Let_def update_conv')

lemma authentication_success_cases:
  assumes "res_status (fst (postVerifyAuthentication env req s)) = 200"
  obtains credential session userId user stored info token where
    "wr_sessionId req \<noteq> []"
    "wr_credential req = Some credential"
    "webAuthnSessions s (wr_sessionId req) = Some session"
    "ws_userId session = Some userId" "getUserById userId s = Some user"
    "getWebAuthnCredentialByCredentialId (rc_id credential) s = Some stored"
    "cred_userId stored = user_id user"
    "we_verifyAuthenticationResponse env
       (authenticationVerifyOptions env session credential stored) = Verified True (Some info)"
    "generateToken (we_jwtSecret env) (we_jwtSign env) user AUTH_WEBAUTHN = Inr token"
  using assms
  by (auto simp: postVerifyAuthentication_def Let_def
      split: option.splits Verification.splits if_splits sum.splits)

lemma authentication_success_state:
  assumes "wr_sessionId req \<noteq> []"
    "wr_credential req = Some credential"
    "webAuthnSessions s (wr_sessionId req) = Some session"
    "ws_userId session = Some userId" "getUserById userId s = Some user"
    "getWebAuthnCredentialByCredentialId (rc_id credential) s = Some stored"
    "cred_userId stored = user_id user"
    "we_verifyAuthenticationResponse env
       (authenticationVerifyOptions env session credential stored) = Verified True (Some info)"
    "generateToken (we_jwtSecret env) (we_jwtSign env) user AUTH_WEBAUTHN = Inr token"
  shows "snd (postVerifyAuthentication env req s) =
     (snd (updateLastLogin (we_now env) (user_id user)
        (snd (updateWebAuthnCredentialCounter (we_now env) (cred_id stored)
           (ai_newCounter info) s))))
     \<lparr>webAuthnSessions :=
        (webAuthnSessions (snd (updateLastLogin (we_now env) (user_id user)
           (snd (updateWebAuthnCredentialCounter (we_now env) (cred_id stored)
              (ai_newCounter info) s)))))(wr_sessionId req := None)\<rparr>"
  using assms by (simp add: postVerifyAuthentication_def Let_def)

text \<open>
  The invariant holds on the fresh server and is kept by every write the two handlers
  make to the credentials (the other writers, \<^verbatim>\<open>deleteWebAuthnCredential\<close> and
  \<^verbatim>\<open>deleteUser\<close>, only delete entries).
\<close>

lemma list_all_update:
  "list_all P al \<Longrightarrow> P (k, v) \<Longrightarrow> list_all P (AList.update k v al)"
  by (induction al) auto

lemma credentialsKeyed_update:
  "credentialsKeyed creds \<Longrightarrow> cred_id c = k \<Longrightarrow> credentialsKeyed (AList.update k c creds)"
  by (simp add: credentialsKeyed_def distinct_update list_all_update)

lemma credentialsKeyed_store:
  "credentialsKeyed (webauthnCredentials s) \<Longrightarrow>
   credentialsKeyed (webauthnCredentials
     (snd (storeWebAuthnCredential now uuid userId cid pk n ts dt s)))"
  by (simp add: storeWebAuthnCredential_def Let_def credentialsKeyed_update)

lemma map_of_keyed:
  "credentialsKeyed creds \<Longrightarrow> map_of creds k = Some c \<Longrightarrow> cred_id c = k"
  by (auto simp: credentialsKeyed_def list_all_iff dest: map_of_SomeD)

lemma credentialsKeyed_updateCounter:
  "credentialsKeyed (webauthnCredentials s) \<Longrightarrow>
   credentialsKeyed (webauthnCredentials (snd (updateWebAuthnCredentialCounter now ident n s)))"
  by (auto simp: updateWebAuthnCredentialCounter_def Let_def
      intro!: credentialsKeyed_update dest: map_of_keyed split: option.splits)

lemma credentialsKeyed_initial: "credentialsKeyed (webauthnCredentials initialServer)"
  by (simp add: initialServer_def credentialsKeyed_def)

lemma credentialsKeyed_registration:
  "credentialsKeyed (webauthnCredentials s) \<Longrightarrow>
   credentialsKeyed (webauthnCredentials (snd (postVerifyRegistration env req s)))"
  by (simp add: postVerifyRegistration_def Let_def split_beta credentialsKeyed_store
      split: option.splits Verification.splits)

lemma credentialsKeyed_authentication:
  "credentialsKeyed (webauthnCredentials s) \<Longrightarrow>
   credentialsKeyed (webauthnCredentials (snd (postVerifyAuthentication env req s)))"
  by (auto simp: postVerifyAuthentication_def Let_def credentialsKeyed_updateCounter
      split: option.splits Verification.splits if_splits sum.splits)

lemma webauthnServer_keyed: "credentialsKeyed (webauthnCredentials webauthnServer)"
  by (simp add: webauthnServer_def initialServer_def credentialsKeyed_def adaKey_def)

text \<open>
  Claim C8, as stated: after a successful authentication the stored counter equals the
  verifier-reported counter and is strictly greater than the counter stored before. The
  handler compares no counters. With an authenticator that keeps no signature counter
  and reports 0 on every assertion, the completion succeeds and stores 0 over 0:
\<close>

lemma toy_authentication_counter:
  "res_status (fst (postVerifyAuthentication (toyEnv n) (assertionRequest ''challenge-1'')
     webauthnServer)) = 200"
  by (simp add: postVerifyAuthentication_def toyEnv_def assertionRequest_def webauthnServer_def
      initialServer_def openSession_def ada_def adaKey_def getUserById_def
      getWebAuthnCredentialByCredentialId_def authenticationVerifyOptions_def
      generateToken_def truthy_def Let_def)

theorem counter_strictly_greater_counterexample:
  "res_status (fst (postVerifyAuthentication (toyEnv 0) (assertionRequest ''challenge-1'')
      webauthnServer)) = 200 \<and>
   map_option cred_counter (map_of (webauthnCredentials webauthnServer) ''cred-1'') = Some 0 \<and>
   map_option cred_counter
     (map_of (webauthnCredentials (snd (postVerifyAuthentication (toyEnv 0)
        (assertionRequest ''challenge-1'') webauthnServer))) ''cred-1'') = Some 0"
  by (simp add: postVerifyAuthentication_def toyEnv_def assertionRequest_def webauthnServer_def
      initialServer_def openSession_def ada_def adaKey_def getUserById_def
      getWebAuthnCredentialByCredentialId_def authenticationVerifyOptions_def
      generateToken_def truthy_def updateWebAuthnCredentialCounter_def updateLastLogin_def Let_def)

text \<open>
  Claim C8, amended. After every successful WebAuthn authentication completion the
  counter stored for the used credential (the one found by its credential identifier,
  under its own id) equals the new counter the verifier reported. Whether that is more
  than the counter stored before is left to the verifier, which is given the stored
  counter.
\<close>

theorem stored_counter_is_reported_counter:
  assumes "credentialsKeyed (webauthnCredentials s)"
    and "res_status (fst (postVerifyAuthentication env req s)) = 200"
  shows "\<exists>credential session stored info.
           wr_credential req = Some credential \<and>
           webAuthnSessions s (wr_sessionId req) = Some session \<and>
           getWebAuthnCredentialByCredentialId (rc_id credential) s = Some stored \<and>
           we_verifyAuthenticationResponse env
             (authenticationVerifyOptions env session credential stored) =
             Verified True (Some info) \<and>
           map_option cred_counter
             (map_of (webauthnCredentials (snd (postVerifyAuthentication env req s)))
                (cred_id stored)) = Some (ai_newCounter info)"
proof -
  from assms(2) obtain credential session userId user stored info token where
    p: "wr_sessionId req \<noteq> []"
    "wr_credential req = Some credential"
    "webAuthnSessions s (wr_sessionId req) = Some session"
    "ws_userId session = Some userId" "getUserById userId s = Some user"
    "getWebAuthnCredentialByCredentialId (rc_id credential) s = Some stored"
    "cred_userId stored = user_id user"
    "we_verifyAuthenticationResponse env
       (authenticationVerifyOptions env session credential stored) = Verified True (Some info)"
    "generateToken (we_jwtSecret env) (we_jwtSign env) user AUTH_WEBAUTHN = Inr token"
    by (rule authentication_success_cases)
  have w: "webauthnCredentials (snd (postVerifyAuthentication env req s)) =
       webauthnCredentials (snd (updateWebAuthnCredentialCounter (we_now env) (cred_id stored)
          (ai_newCounter info) s))"
    by (simp add: authentication_success_state [OF p])
  from p(6) have "map_of (webauthnCredentials s) (cred_id stored) = Some stored"
    using credentialsKeyed_find [OF assms(1)]
    by (simp add: getWebAuthnCredentialByCredentialId_def)
  from updateCounter_stored [OF this, of "we_now env" "ai_newCounter info"] w
  have "map_option cred_counter
          (map_of (webauthnCredentials (snd (postVerifyAuthentication env req s)))
             (cred_id stored)) = Some (ai_newCounter info)"
    by simp
  with p show ?thesis by blast
qed

text \<open>With an authenticator that reports counter 7, 7 is stored.\<close>

theorem stored_counter_is_reported_counter_witness:
  "map_option cred_counter
     (map_of (webauthnCredentials (snd (postVerifyAuthentication (toyEnv 7)
        (assertionRequest ''challenge-1'') webauthnServer))) ''cred-1'') = Some 7"
proof -
  from stored_counter_is_reported_counter [OF webauthnServer_keyed toy_authentication_counter [of 7]]
  obtain credential session stored info where
    "wr_credential (assertionRequest ''challenge-1'') = Some credential"
    "webAuthnSessions webauthnServer (wr_sessionId (assertionRequest ''challenge-1'')) = Some session"
    "getWebAuthnCredentialByCredentialId (rc_id credential) webauthnServer = Some stored"
    "we_verifyAuthenticationResponse (toyEnv 7)
       (authenticationVerifyOptions (toyEnv 7) session credential stored) = Verified True (Some info)"
    "map_option cred_counter
       (map_of (webauthnCredentials (snd (postVerifyAuthentication (toyEnv 7)
          (assertionRequest ''challenge-1'') webauthnServer))) (cred_id stored)) =
     Some (ai_newCounter info)"
    by blast
  then show ?thesis
    by (auto simp: assertionRequest_def webauthnServer_def initialServer_def openSession_def
        getWebAuthnCredentialByCredentialId_def adaKey_def toyEnv_def
        authenticationVerifyOptions_def split: if_splits)
qed

end
